theory Spec2Isabelle
  imports Complex_Main "HOL-Library.AList"
begin

section \<open>The state-synchronisation engine of \<^verbatim>\<open>taipy/gui/gui.py\<close>\<close>

text \<open>
  A shallow embedding of the methods of class \<^verbatim>\<open>Gui\<close> that bind variables, handle inbound
  messages, dispatch actions and register routes. A constant cannot start with an
  underscore, so the method \<^verbatim>\<open>_bind\<close> is the constant \<open>Gui_bind\<close>, the method
  \<^verbatim>\<open>__send_var_list_update\<close> is \<open>Gui_send_var_list_update\<close>, and so on; a parameter
  \<^verbatim>\<open>value\<close> is \<open>val\<close> and \<^verbatim>\<open>id\<close> is \<open>ident\<close>.

  Every method takes the engine's state and returns it updated. A raise is the left
  injection of the result; what the method pushes to the outside (warnings, messages on
  the channel, broadcasts, calls of user functions) is returned as a list of events.
\<close>

subsection \<open>Python values\<close>

datatype pyval =
    VNone
  | VBool bool
  | VInt int
  | VFloat real
  | VComplex complex
  | VStr string
  | VDatetime int
  | VList "pyval list"
  | VDict "(string \<times> pyval) list"
  | VMapDictionary "(string \<times> pyval) list"
  | VFunction string nat
  | VObject string
  | VSelf

text \<open>
  \<open>VFunction name argcount\<close> is a plain function (\<^verbatim>\<open>types.FunctionType\<close>) with its
  \<^verbatim>\<open>__code__.co_argcount\<close>; \<open>VObject\<close> is any other object (a bound method, a renderer,
  a server); \<open>VSelf\<close> is the engine instance when it is passed as an argument.
  \<open>VMapDictionary\<close> is the wrapper \<^verbatim>\<open>_MapDictionary\<close> around a dict (its class is
  not under src/; it is taken to be no subclass of \<^verbatim>\<open>dict\<close> and to be true in a test).
  The two wrappers \<^verbatim>\<open>_bind\<close> builds around one dict are two equal values here. A float
  is carried as the real it denotes and a datetime as an instant: the engine never
  computes with either.
\<close>

datatype exc_class =
  TypeError | KeyError | ValueError | AttributeError | SyntaxError | RuntimeError | Exception

text \<open>
  An exception is its class and its message. Every class here derives from
  \<^verbatim>\<open>Exception\<close>; \<open>Exception\<close> itself stands for it and for any subclass not listed.
\<close>

datatype exc = Exc exc_class string

fun truthy :: "pyval \<Rightarrow> bool" where
  "truthy VNone = False"
| "truthy (VBool b) = b"
| "truthy (VInt i) = (i \<noteq> 0)"
| "truthy (VFloat f) = (f \<noteq> 0)"
| "truthy (VComplex c) = (c \<noteq> 0)"
| "truthy (VStr s) = (s \<noteq> [])"
| "truthy (VList xs) = (xs \<noteq> [])"
| "truthy (VDict d) = (d \<noteq> [])"
| "truthy (VDatetime t) = True"
| "truthy (VMapDictionary d) = True"
| "truthy (VFunction f n) = True"
| "truthy (VObject s) = True"
| "truthy VSelf = True"

definition quote :: "string \<Rightarrow> string" where
  "quote s = [CHR 0x27] @ s @ [CHR 0x27]"

subsection \<open>Characters\<close>

text \<open>
  A string is the list of its characters, and a character beyond ASCII is a \<open>char\<close> from
  128 on. The classes below are those of ASCII. \<open>is_space\<close> is the white space that
  \<^verbatim>\<open>int\<close> skips around the digits of an ASCII string.
\<close>

definition is_ascii :: "string \<Rightarrow> bool" where
  "is_ascii s = list_all (\<lambda>c. (of_char c :: nat) < 128) s"

definition is_digit :: "char \<Rightarrow> bool" where
  "is_digit c = (let n = (of_char c :: nat) in 48 \<le> n \<and> n \<le> 57)"

definition is_alpha :: "char \<Rightarrow> bool" where
  "is_alpha c = (let n = (of_char c :: nat) in (65 \<le> n \<and> n \<le> 90) \<or> (97 \<le> n \<and> n \<le> 122))"

definition is_word :: "char \<Rightarrow> bool" where
  "is_word c = (is_alpha c \<or> is_digit c \<or> c = CHR ''_'')"

definition is_space :: "char \<Rightarrow> bool" where
  "is_space c = (let n = (of_char c :: nat) in (9 \<le> n \<and> n \<le> 13) \<or> n = 32)"

definition strip :: "string \<Rightarrow> string" where
  "strip s = rev (dropWhile is_space (rev (dropWhile is_space s)))"

definition digit_val :: "char \<Rightarrow> nat" where
  "digit_val c = of_char c - 48"

fun int_digits :: "nat \<Rightarrow> string \<Rightarrow> nat option" where
  "int_digits acc [] = Some acc"
| "int_digits acc [c] = (if is_digit c then Some (acc * 10 + digit_val c) else None)"
| "int_digits acc (c # d # ds) =
     (if c = CHR ''_'' then
        (if is_digit d then int_digits (acc * 10 + digit_val d) ds else None)
      else if is_digit c then int_digits (acc * 10 + digit_val c) (d # ds)
      else None)"

fun split_dot :: "string \<Rightarrow> string list" where
  "split_dot [] = [[]]"
| "split_dot (c # cs) =
     (if c = CHR ''.'' then [] # split_dot cs
      else (case split_dot cs of [] \<Rightarrow> [[c]] | x # xs \<Rightarrow> (c # x) # xs))"

subsection \<open>The engine's state\<close>

datatype scope_id = GlobalScope | ClientScope string

type_synonym scope = "string \<rightharpoonup> pyval"

datatype renderer_arg = PageRenderer string | OtherObject

datatype WsType =
  UPDATE | ACTION | DATA_UPDATE | REQUEST_UPDATE | MULTIPLE_UPDATE | ALERT | BLOCK | NAVIGATE

text \<open>
  The \<^verbatim>\<open>type\<close> field of an inbound message: the value of a member of \<^verbatim>\<open>WsType\<close>, or
  anything else.
\<close>

datatype msg_type = WsValue WsType | OtherType pyval

text \<open>
  \<open>attrs\<close> are the attributes of the instance and its class other than the properties
  \<^verbatim>\<open>_bind\<close> adds (the names of \<open>props\<close>) and the two callback fields; \<open>scopes\<close> is the
  content of \<^verbatim>\<open>_DataScopes\<close>; \<open>request_sid\<close> is \<^verbatim>\<open>request.sid\<close> of the request being
  served, when it has one; the last five fields are those of \<^verbatim>\<open>GuiConfig\<close> and
  \<^verbatim>\<open>_reserved_routes\<close>.
\<close>

record gui =
  attrs :: "string \<rightharpoonup> pyval"
  props :: "string set"
  scopes :: "scope_id \<Rightarrow> scope"
  multi_user :: bool
  request_sid :: "string option"
  update_function :: pyval
  action_function :: pyval
  pages :: "(string \<times> renderer_arg \<times> string) list"
  routes :: "string list"
  partials :: "(string \<times> renderer_arg) list"
  partial_routes :: "string list"
  reserved_routes :: "string list"

text \<open>
  Modelled from the spec: \<^verbatim>\<open>_DataScopes.get_scope\<close> is not in src/. The spec (4.2): the
  active scope for the current request; in single-user mode always the same scope (the
  global one), in multi-user mode keyed by the session identifier, created on demand (a
  scope never written to is the empty map).
\<close>

definition get_scope :: "gui \<Rightarrow> scope_id" where
  "get_scope g =
     (if multi_user g then (case request_sid g of None \<Rightarrow> GlobalScope | Some sid \<Rightarrow> ClientScope sid)
      else GlobalScope)"

definition Gui_get_data_scope :: "gui \<Rightarrow> scope" where
  "Gui_get_data_scope g = scopes g (get_scope g)"

definition set_data_scope :: "gui \<Rightarrow> scope \<Rightarrow> gui" where
  "set_data_scope g sc = g\<lparr>scopes := (scopes g)(get_scope g := sc)\<rparr>"

text \<open>
  \<^verbatim>\<open>getattr(self, name)\<close>: a property of the class comes first, and its getter
  (\<^verbatim>\<open>__value_getter\<close>) reads the active scope; \<^verbatim>\<open>hasattr\<close> is false when that raises
  \<^verbatim>\<open>AttributeError\<close>.
\<close>

definition Gui_getattr :: "gui \<Rightarrow> string \<Rightarrow> exc + pyval" where
  "Gui_getattr g name =
     (if name \<in> props g then
        (case Gui_get_data_scope g name of
           None \<Rightarrow> Inl (Exc AttributeError name)
         | Some v \<Rightarrow> Inr v)
      else if name = ''_update_function'' then Inr (update_function g)
      else if name = ''_action_function'' then Inr (action_function g)
      else (case attrs g name of None \<Rightarrow> Inl (Exc AttributeError name) | Some v \<Rightarrow> Inr v))"

definition Gui_hasattr :: "gui \<Rightarrow> string \<Rightarrow> bool" where
  "Gui_hasattr g name = (case Gui_getattr g name of Inl e \<Rightarrow> False | Inr v \<Rightarrow> True)"

subsection \<open>Events and collaborators\<close>

datatype warning =
    DecodingFailed string
  | CantAccess string
  | WsError exc
  | WrongSignature string
  | ActionException string exc
  | PartialAlreadyDefined string

text \<open>
  What a method pushes outside the state: a \<^verbatim>\<open>warnings.warn\<close>, a message given to the
  channel with its receiver, a \<^verbatim>\<open>broadcast_data\<close> of the scope manager, and the call of
  a user function with its arguments.
\<close>

datatype event =
    Warn warning
  | Emit WsType "(string \<times> pyval) list" "string option"
  | Broadcast string pyval
  | Call pyval "pyval list"

text \<open>
  The collaborators of the engine that are not under src/ (the evaluator, the adapter
  and accessor registries, \<^verbatim>\<open>utils\<close>, the channel) and the parts of the interpreter that
  are not modelled here (parsing of floats, complex numbers and dates, \<^verbatim>\<open>str\<close> of a
  value that is not a string, what the Unicode tables say of a string that is not
  ASCII, attributes of stored objects, and what a user function does when it is called)
  are parameters. A user function may change the state and may
  raise. \<open>path_attrsetter\<close> is \<^verbatim>\<open>utils.attrsetter\<close> for a name that is not a plain
  attribute name (a dotted path into a nested mapping).
\<close>

record env =
  get_hash_from_expr :: "pyval \<Rightarrow> pyval"
  re_evaluate_expr :: "gui \<Rightarrow> pyval \<Rightarrow> pyval list \<times> gui"
  cast_string_value :: "pyval \<Rightarrow> pyval \<Rightarrow> pyval"
  is_data_access :: "string \<Rightarrow> pyval \<Rightarrow> bool"
  get_data :: "string \<Rightarrow> pyval \<Rightarrow> pyval \<Rightarrow> exc + pyval"
  run_adapter_for_var :: "string \<Rightarrow> pyval \<Rightarrow> nat option \<Rightarrow> bool \<Rightarrow> pyval"
  get_client_var_name :: "string \<Rightarrow> string"
  ISOToDate :: "string \<Rightarrow> exc + pyval"
  dateToISO :: "int \<Rightarrow> pyval"
  py_float :: "string \<Rightarrow> exc + pyval"
  py_complex :: "string \<Rightarrow> exc + pyval"
  py_str :: "pyval \<Rightarrow> string"
  unicode_isidentifier :: "string \<Rightarrow> bool"
  unicode_int :: "string \<Rightarrow> exc + int"
  unicode_page_name_match :: "string \<Rightarrow> bool"
  value_getattr :: "pyval \<Rightarrow> string \<Rightarrow> exc + pyval"
  path_attrsetter :: "scope \<Rightarrow> pyval \<Rightarrow> pyval \<Rightarrow> exc + scope"
  emit :: "WsType \<Rightarrow> (string \<times> pyval) list \<Rightarrow> string option \<Rightarrow> exc option"
  call_function :: "pyval \<Rightarrow> pyval list \<Rightarrow> gui \<Rightarrow> (exc + unit) \<times> gui"

subsection \<open>Strings under the interpreter\<close>

text \<open>
  \<^verbatim>\<open>str.isidentifier\<close> of an ASCII string: a letter or underscore, then letters, digits
  and underscores. For a string with a character beyond ASCII the Unicode tables of the
  interpreter decide, and they are collaborators.
\<close>

definition isidentifier :: "env \<Rightarrow> string \<Rightarrow> bool" where
  "isidentifier env s =
     (if is_ascii s then
        (case s of [] \<Rightarrow> False
         | c # cs \<Rightarrow> (is_alpha c \<or> c = CHR ''_'') \<and> list_all is_word cs)
      else unicode_isidentifier env s)"

text \<open>
  \<^verbatim>\<open>int(s)\<close> in base 10 of an ASCII string: white space around, an optional sign, then
  digits, where single underscores may stand between digits. Anything else is a
  \<^verbatim>\<open>ValueError\<close>. (The interpreter's limit on the number of digits is a setting of the
  host and is left out.)
\<close>

definition invalid_literal :: "string \<Rightarrow> exc" where
  "invalid_literal s = Exc ValueError (''invalid literal for int() with base 10: '' @ quote s)"

definition py_int :: "env \<Rightarrow> string \<Rightarrow> exc + int" where
  "py_int env s =
     (if is_ascii s then
        (case strip s of
           [] \<Rightarrow> Inl (invalid_literal s)
         | c # cs \<Rightarrow>
             (let neg = (c = CHR ''-'');
                  body = (if c = CHR ''-'' \<or> c = CHR ''+'' then cs else c # cs)
              in case body of
                   [] \<Rightarrow> Inl (invalid_literal s)
                 | d # ds \<Rightarrow>
                     (if is_digit d then
                        (case int_digits (digit_val d) ds of
                           None \<Rightarrow> Inl (invalid_literal s)
                         | Some n \<Rightarrow> Inr (if neg then - int n else int n))
                      else Inl (invalid_literal s))))
      else unicode_int env s)"

subsection \<open>Binding\<close>

definition Gui_bind_global :: "gui \<Rightarrow> string \<Rightarrow> pyval \<Rightarrow> gui" where
  "Gui_bind_global g name val =
     (if name \<in> dom (scopes g GlobalScope) then g
      else g\<lparr>scopes := (scopes g)(GlobalScope := (scopes g GlobalScope)(name \<mapsto> val))\<rparr>)"

definition already_bound :: "string \<Rightarrow> exc" where
  "already_bound name = Exc ValueError (''Variable '' @ quote name @ '' is already bound'')"

definition invalid_name :: "string \<Rightarrow> exc" where
  "invalid_name name = Exc ValueError (''Variable name '' @ quote name @ '' is invalid'')"

definition is_dict :: "pyval \<Rightarrow> bool" where
  "is_dict v = (case v of VDict d \<Rightarrow> True | _ \<Rightarrow> False)"

definition MapDictionary :: "pyval \<Rightarrow> pyval" where
  "MapDictionary v = (case v of VDict d \<Rightarrow> VMapDictionary d | _ \<Rightarrow> v)"

definition Gui_bind :: "env \<Rightarrow> gui \<Rightarrow> string \<Rightarrow> pyval \<Rightarrow> (exc + unit) \<times> gui" where
  "Gui_bind env g name val =
     (if Gui_hasattr g name then (Inl (already_bound name), g)
      else if \<not> isidentifier env name then (Inl (invalid_name name), g)
      else
        (let g2 =
           (if is_dict val then
              Gui_bind_global
                (set_data_scope g ((Gui_get_data_scope g)(name \<mapsto> MapDictionary val)))
                name (MapDictionary val)
            else
              Gui_bind_global (set_data_scope g ((Gui_get_data_scope g)(name \<mapsto> val))) name val)
         in (Inr (), g2\<lparr>props := insert name (props g2)\<rparr>)))"

definition Gui_bind_var_val :: "env \<Rightarrow> gui \<Rightarrow> string \<Rightarrow> pyval \<Rightarrow> (exc + bool) \<times> gui" where
  "Gui_bind_var_val env g var_name val =
     (if \<not> Gui_hasattr g var_name then
        (case Gui_bind env g var_name val of
           (Inl e, g') \<Rightarrow> (Inl e, g')
         | (Inr u, g') \<Rightarrow> (Inr True, g'))
      else (Inr False, g))"

text \<open>
  The attributes of a fresh instance, as \<^verbatim>\<open>getattr\<close> finds them: the fields
  \<^verbatim>\<open>__init__\<close> sets (the two callback fields are fields of the state), then what the
  class body defines, then what every instance inherits from \<^verbatim>\<open>object\<close> (CPython 3.11).
  A method read through the instance is a bound method, an object that is no plain
  function; the static method \<^verbatim>\<open>_get_instance\<close> is read as the plain function it
  wraps; a name with two leading underscores is stored under its mangled name.
\<close>

definition bound_method :: "string \<Rightarrow> string \<times> pyval" where
  "bound_method n = (n, VObject n)"

definition Gui_instance_attributes :: "(string \<times> pyval) list" where
  "Gui_instance_attributes =
     [(''_server'', VObject ''Server''), (''_config'', VObject ''GuiConfig''),
      (''_accessors'', VObject ''_DataAccessors''), (''_scopes'', VObject ''_DataScopes''),
      (''_evaluator'', VObject ''_Evaluator''), (''_adapter'', VObject ''_Adapter''),
      (''_reserved_routes'', VList [VStr ''initialize'', VStr ''flask-jsx'']),
      (''_directory_name_of_pages'', VList []), (''_flask_blueprint'', VList [])]"

definition Gui_class_attributes :: "(string \<times> pyval) list" where
  "Gui_class_attributes =
     [(''__module__'', VStr ''taipy.gui.gui''),
      (''__doc__'', VStr ''The class that handles the Graphical User Interface.''),
      (''__dict__'', VObject ''dict''), (''__weakref__'', VNone),
      (''_Gui__root_page_name'', VStr ''TaiPy_root_page''),
      (''_Gui__env_filename'', VStr ''taipy.gui.env''),
      (''_Gui__UI_BLOCK_NAME'', VStr ''TaipyUiBlockVar''),
      (''_Gui__RE_HTML'', VObject ''re.Pattern''), (''_Gui__RE_MD'', VObject ''re.Pattern''),
      (''_Gui__RE_PAGE_NAME'', VObject ''re.Pattern''), (''_markdown'', VObject ''Markdown''),
      (''_get_instance'', VFunction ''_get_instance'' 0)]
     @ map bound_method
         [''__init__'', ''_get_app_config'', ''_get_themes'', ''_get_data_scope'', ''_bind'',
          ''_bind_global'', ''_Gui__value_getter'', ''_manage_message'', ''_front_end_update'',
          ''_update_var'', ''_Gui__send_var_list_update'', ''_request_data_update'',
          ''_request_var_update'', ''_send_ws_update'', ''_send_ws_alert'', ''_send_ws_block'',
          ''_send_ws_navigate'', ''_send_ws_update_with_dict'', ''_get_ws_receiver'',
          ''_on_action'', ''_Gui__call_function_with_args'', ''_evaluate_expr'',
          ''_re_evaluate_expr'', ''_get_hash_from_expr'', ''_get_expr_from_hash'',
          ''_is_expression'', ''_fetch_expression_list'', ''_add_list_for_variable'',
          ''_add_adapter_for_type'', ''_add_type_for_var'', ''_get_adapter_for_type'',
          ''_run_adapter_for_var'', ''_run_adapter'', ''_get_valid_adapter_result'',
          ''add_page'', ''add_pages'', ''add_partial'', ''bind_var'', ''bind_var_val'',
          ''bind_func'', ''on_update'', ''on_action'', ''load_config'', ''send_alert'',
          ''block_ui'', ''unblock_ui'', ''_is_ui_blocked'', ''_Gui__get_on_cancel_block_ui'',
          ''navigate'', ''register_data_accessor'', ''get_flask_app'', ''run'']"

definition object_attributes :: "(string \<times> pyval) list" where
  "object_attributes =
     (''__class__'', VObject ''type'')
     # map bound_method
         [''__delattr__'', ''__dir__'', ''__eq__'', ''__format__'', ''__ge__'',
          ''__getattribute__'', ''__getstate__'', ''__gt__'', ''__hash__'',
          ''__init_subclass__'', ''__le__'', ''__lt__'', ''__ne__'', ''__new__'',
          ''__reduce__'', ''__reduce_ex__'', ''__repr__'', ''__setattr__'', ''__sizeof__'',
          ''__str__'', ''__subclasshook__'']"

text \<open>The state \<^verbatim>\<open>__init__\<close> leaves (no default renderer, no pages): nothing is bound.\<close>

definition Gui_init :: gui where
  "Gui_init =
     \<lparr>attrs = map_of (Gui_instance_attributes @ Gui_class_attributes @ object_attributes),
      props = {},
      scopes = (\<lambda>s. Map.empty),
      multi_user = False,
      request_sid = None,
      update_function = VNone,
      action_function = VNone,
      pages = [],
      routes = [],
      partials = [],
      partial_routes = [],
      reserved_routes = [''initialize'', ''flask-jsx'']\<rparr>"

text \<open>
  Modelled from the spec: \<^verbatim>\<open>utils._get_dict_value\<close> is not in src/. It reads a key of a
  dict and yields \<^verbatim>\<open>None\<close> when the key is missing (the spec, 6: the name of an ACTION
  is the client id or none).
\<close>

definition get_dict_value :: "(string \<times> pyval) list \<Rightarrow> string \<Rightarrow> pyval" where
  "get_dict_value d k = (case map_of d k of None \<Rightarrow> VNone | Some v \<Rightarrow> v)"

definition dict_get :: "(string \<times> pyval) list \<Rightarrow> string \<Rightarrow> exc + pyval" where
  "dict_get d k = (case map_of d k of None \<Rightarrow> Inl (Exc KeyError (quote k)) | Some v \<Rightarrow> Inr v)"

definition not_a_string :: exc where
  "not_a_string = Exc TypeError ''attribute name must be a string''"

fun attr_chain :: "env \<Rightarrow> pyval \<Rightarrow> string list \<Rightarrow> exc + pyval" where
  "attr_chain env v [] = Inr v"
| "attr_chain env v (a # as) =
     (case value_getattr env v a of Inl e \<Rightarrow> Inl e | Inr v' \<Rightarrow> attr_chain env v' as)"

text \<open>\<^verbatim>\<open>operator.attrgetter(name)(scope)\<close>: the scope is a container of variables.\<close>

definition attrgetter :: "env \<Rightarrow> pyval \<Rightarrow> scope \<Rightarrow> exc + pyval" where
  "attrgetter env name sc =
     (case name of
        VStr s \<Rightarrow>
          (case split_dot s of
             [] \<Rightarrow> Inl (Exc AttributeError s)
           | a # as \<Rightarrow>
               (case sc a of
                  None \<Rightarrow> Inl (Exc AttributeError a)
                | Some v \<Rightarrow> attr_chain env v as))
      | _ \<Rightarrow> Inl not_a_string)"

text \<open>
  Modelled from the spec: \<^verbatim>\<open>utils.attrsetter\<close> is not in src/. For a plain name it is
  \<^verbatim>\<open>setattr\<close> on the scope (the spec, 4.5: write the value into the scope); every other
  name goes to the collaborator.
\<close>

definition attrsetter :: "env \<Rightarrow> scope \<Rightarrow> pyval \<Rightarrow> pyval \<Rightarrow> exc + scope" where
  "attrsetter env sc name val =
     (case name of
        VStr s \<Rightarrow>
          (case split_dot s of
             [a] \<Rightarrow> Inr (sc(a \<mapsto> val))
           | _ \<Rightarrow> path_attrsetter env sc name val)
      | _ \<Rightarrow> path_attrsetter env sc name val)"

subsection \<open>Outbound updates\<close>

definition Gui_get_ws_receiver :: "gui \<Rightarrow> string option" where
  "Gui_get_ws_receiver g =
     (if request_sid g = None \<or> \<not> multi_user g then None else request_sid g)"

definition ws_payload :: "pyval \<Rightarrow> pyval" where
  "ws_payload v =
     (case v of
        VDict d \<Rightarrow> (if map_of d ''value'' \<noteq> None then v else VDict [(''value'', v)])
      | _ \<Rightarrow> VDict [(''value'', v)])"

definition ws_entry :: "env \<Rightarrow> string \<times> pyval \<Rightarrow> pyval" where
  "ws_entry env kv =
     VDict [(''name'', VStr (get_client_var_name env (fst kv))), (''payload'', ws_payload (snd kv))]"

definition Gui_send_ws_update_with_dict :: "env \<Rightarrow> gui \<Rightarrow> (string \<times> pyval) list \<Rightarrow> event list" where
  "Gui_send_ws_update_with_dict env g modified_values =
     (let payload = map (ws_entry env) modified_values in
      case emit env MULTIPLE_UPDATE [(''payload'', VList payload)] (Gui_get_ws_receiver g) of
        None \<Rightarrow> [Emit MULTIPLE_UPDATE [(''payload'', VList payload)] (Gui_get_ws_receiver g)]
      | Some e \<Rightarrow> [Warn (WsError e)])"

text \<open>
  The loop of \<^verbatim>\<open>__send_var_list_update\<close>. \<open>ws_dict\<close> is a dict: a key written again
  keeps its place. The adapter gets the index of a list element as a number (the source
  passes \<^verbatim>\<open>str(idx)\<close>).
\<close>

fun send_var_loop ::
  "env \<Rightarrow> gui \<Rightarrow> pyval list \<Rightarrow> (string \<times> pyval) list \<Rightarrow> (exc + (string \<times> pyval) list) \<times> event list"
where
  "send_var_loop env g [] ws_dict = (Inr ws_dict, [])"
| "send_var_loop env g (var # vars) ws_dict =
     (case attrgetter env var (Gui_get_data_scope g) of
        Inl e \<Rightarrow> (Inl e, [])
      | Inr fetched \<Rightarrow>
          (case var of
             VStr s \<Rightarrow>
               (let newvalue = (case fetched of VDatetime d \<Rightarrow> dateToISO env d | _ \<Rightarrow> fetched);
                    ws_dict' =
                      (if is_data_access env s newvalue then
                         AList.update (s @ ''.refresh'') (VBool True) ws_dict
                       else
                         (case newvalue of
                            VList xs \<Rightarrow>
                              AList.update s
                                (VList (map (\<lambda>(idx, elt). run_adapter_for_var env s elt (Some idx) False)
                                   (enumerate 0 xs)))
                                ws_dict
                          | _ \<Rightarrow>
                              (case run_adapter_for_var env s newvalue None True of
                                 VMapDictionary d \<Rightarrow> ws_dict
                               | adapted \<Rightarrow> AList.update s adapted ws_dict)))
                in case send_var_loop env g vars ws_dict' of
                     (r, evs) \<Rightarrow> (r, Broadcast s fetched # evs))
           | _ \<Rightarrow> (Inl not_a_string, [])))"

definition Gui_send_var_list_update :: "env \<Rightarrow> gui \<Rightarrow> pyval list \<Rightarrow> (exc + unit) \<times> event list" where
  "Gui_send_var_list_update env g modified_vars =
     (case send_var_loop env g modified_vars [] of
        (Inl e, evs) \<Rightarrow> (Inl e, evs)
      | (Inr ws_dict, evs) \<Rightarrow> (Inr (), evs @ Gui_send_ws_update_with_dict env g ws_dict))"

subsection \<open>Inbound updates\<close>

definition Gui_update_var ::
  "env \<Rightarrow> gui \<Rightarrow> pyval \<Rightarrow> pyval \<Rightarrow> pyval \<Rightarrow> (exc + unit) \<times> gui \<times> event list"
where
  "Gui_update_var env g var_name val propagate =
     (let hash_expr = get_hash_from_expr env var_name in
      case
        (if truthy propagate then
           (case attrsetter env (Gui_get_data_scope g) hash_expr val of
              Inl e \<Rightarrow> Inl e
            | Inr sc \<Rightarrow>
                (if var_name = hash_expr then
                   (case re_evaluate_expr env (set_data_scope g sc) var_name of
                      (hs, g') \<Rightarrow> Inr (g', [hash_expr] @ hs))
                 else Inr (set_data_scope g sc, [hash_expr])))
         else Inr (g, [hash_expr]))
      of
        Inl e \<Rightarrow> (Inl e, g, [])
      | Inr (g1, modified_vars) \<Rightarrow>
          (case
             (if truthy (update_function g1) then
                (case call_function env (update_function g1) [VSelf, var_name, val] g1 of
                   (r, g2) \<Rightarrow> (r, g2, [Call (update_function g1) [VSelf, var_name, val]]))
              else (Inr (), g1, []))
           of
             (Inl e, g2, evs) \<Rightarrow> (Inl e, g2, evs)
           | (Inr u, g2, evs) \<Rightarrow>
               (case Gui_send_var_list_update env g2 modified_vars of
                  (r, evs') \<Rightarrow> (r, g2, evs @ evs'))))"

definition is_datetime :: "pyval \<Rightarrow> bool" where
  "is_datetime v = (case v of VDatetime t \<Rightarrow> True | _ \<Rightarrow> False)"

text \<open>\<^verbatim>\<open>bool\<close> is a subclass of \<^verbatim>\<open>int\<close>.\<close>

definition is_int :: "pyval \<Rightarrow> bool" where
  "is_int v = (case v of VInt i \<Rightarrow> True | VBool b \<Rightarrow> True | _ \<Rightarrow> False)"

definition is_float :: "pyval \<Rightarrow> bool" where
  "is_float v = (case v of VFloat f \<Rightarrow> True | _ \<Rightarrow> False)"

definition is_complex :: "pyval \<Rightarrow> bool" where
  "is_complex v = (case v of VComplex c \<Rightarrow> True | _ \<Rightarrow> False)"

definition is_bool :: "pyval \<Rightarrow> bool" where
  "is_bool v = (case v of VBool b \<Rightarrow> True | _ \<Rightarrow> False)"

text \<open>
  The coercion of \<^verbatim>\<open>_front_end_update\<close> (its \<^verbatim>\<open>if isinstance(value, str)\<close> block):
  \<open>Some\<close> of the value that goes on to \<^verbatim>\<open>_update_var\<close>, \<open>None\<close> where the source
  returns early, a raise where a conversion raises.
\<close>

definition coerce_value :: "env \<Rightarrow> pyval \<Rightarrow> pyval \<Rightarrow> pyval \<Rightarrow> exc + pyval option" where
  "coerce_value env var_name currentvalue val =
     (case val of
        VStr s \<Rightarrow>
          (if is_datetime currentvalue then map_sum id Some (ISOToDate env s)
           else if is_int currentvalue then
             (if s \<noteq> [] then map_sum id (\<lambda>i. Some (VInt i)) (py_int env s)
              else Inr (Some (VInt 0)))
           else if is_float currentvalue then
             (if s \<noteq> [] then map_sum id Some (py_float env s)
              else Inr (Some (VFloat 0)))
           else if is_complex currentvalue then
             (if s \<noteq> [] then map_sum id Some (py_complex env s)
              else Inr (Some (VInt 0)))
           else if is_bool currentvalue then Inr (Some (VBool (s \<noteq> [])))
           else if cast_string_value env var_name currentvalue = VNone then Inr None
           else Inr (Some val))
      | _ \<Rightarrow> Inr (Some val))"

definition Gui_front_end_update ::
  "env \<Rightarrow> gui \<Rightarrow> pyval \<Rightarrow> pyval \<Rightarrow> pyval \<Rightarrow> (exc + unit) \<times> gui \<times> event list"
where
  "Gui_front_end_update env g var_name val propagate =
     (case attrgetter env (get_hash_from_expr env var_name) (Gui_get_data_scope g) of
        Inl e \<Rightarrow> (Inl e, g, [])
      | Inr currentvalue \<Rightarrow>
          (case coerce_value env var_name currentvalue val of
             Inl e \<Rightarrow> (Inl e, g, [])
           | Inr None \<Rightarrow> (Inr (), g, [])
           | Inr (Some v) \<Rightarrow> Gui_update_var env g var_name v propagate))"

definition Gui_request_data_update ::
  "env \<Rightarrow> gui \<Rightarrow> pyval \<Rightarrow> pyval \<Rightarrow> (exc + unit) \<times> event list"
where
  "Gui_request_data_update env g var_name payload =
     (let var_name' = get_hash_from_expr env var_name in
      case attrgetter env var_name' (Gui_get_data_scope g) of
        Inl e \<Rightarrow> (Inl e, [])
      | Inr newvalue \<Rightarrow>
          (case var_name' of
             VStr s \<Rightarrow>
               (case get_data env s newvalue payload of
                  Inl e \<Rightarrow> (Inl e, [])
                | Inr ret_payload \<Rightarrow>
                    (Inr (),
                     Gui_send_ws_update_with_dict env g
                       [(s, ret_payload), (s @ ''.refresh'', VBool False)]))
           | _ \<Rightarrow> (Inl not_a_string, [])))"

fun is_substring :: "string \<Rightarrow> string \<Rightarrow> bool" where
  "is_substring p [] = (p = [])"
| "is_substring p (c # cs) = (take (length p) (c # cs) = p \<or> is_substring p cs)"

text \<open>
  \<^verbatim>\<open>"names" in payload and isinstance(payload["names"], list)\<close>, for the values a decoded
  message holds: a key of a dict, a substring of a string, an element of a list; a
  \<^verbatim>\<open>TypeError\<close> for a string or a list that passes the first test (it has no such
  index) and for a value that is no container.
\<close>

definition Gui_request_var_update :: "env \<Rightarrow> gui \<Rightarrow> pyval \<Rightarrow> (exc + unit) \<times> event list" where
  "Gui_request_var_update env g payload =
     (case payload of
        VDict d \<Rightarrow>
          (case map_of d ''names'' of
             Some (VList names) \<Rightarrow> Gui_send_var_list_update env g names
           | _ \<Rightarrow> (Inr (), []))
      | VStr s \<Rightarrow>
          (if is_substring ''names'' s
           then (Inl (Exc TypeError ''string indices must be integers''), [])
           else (Inr (), []))
      | VList xs \<Rightarrow>
          (if VStr ''names'' \<in> set xs
           then (Inl (Exc TypeError ''list indices must be integers or slices''), [])
           else (Inr (), []))
      | _ \<Rightarrow> (Inl (Exc TypeError ''argument is not iterable''), []))"

subsection \<open>Actions\<close>

definition action_args :: "nat \<Rightarrow> pyval \<Rightarrow> pyval \<Rightarrow> pyval \<Rightarrow> pyval list option" where
  "action_args argcount ident action payload =
     (if argcount = 0 then Some []
      else if argcount = 1 then Some [VSelf]
      else if argcount = 2 then Some [VSelf, ident]
      else if argcount = 3 then
        (if action \<noteq> VNone then Some [VSelf, ident, action] else Some [VSelf, ident, payload])
      else if argcount = 4 \<and> action \<noteq> VNone then Some [VSelf, ident, action, payload]
      else None)"

text \<open>
  \<^verbatim>\<open>__call_function_with_args\<close>, with the keyword arguments \<^verbatim>\<open>action_function\<close>,
  \<^verbatim>\<open>id\<close>, \<^verbatim>\<open>action\<close> (\<^verbatim>\<open>None\<close> when it is not given) and \<^verbatim>\<open>payload\<close>.
\<close>

definition Gui_call_function_with_args ::
  "env \<Rightarrow> gui \<Rightarrow> pyval \<Rightarrow> pyval \<Rightarrow> pyval \<Rightarrow> pyval \<Rightarrow> bool \<times> gui \<times> event list"
where
  "Gui_call_function_with_args env g action_function' ident action payload =
     (case action_function' of
        VFunction fname argcount \<Rightarrow>
          (case action_args argcount ident action payload of
             None \<Rightarrow> (False, g, [Warn (WrongSignature fname)])
           | Some args \<Rightarrow>
               (case call_function env action_function' args g of
                  (Inl e, g') \<Rightarrow>
                    (False, g', [Call action_function' args, Warn (ActionException fname e)])
                | (Inr u, g') \<Rightarrow> (True, g', [Call action_function' args])))
      | _ \<Rightarrow> (False, g, []))"

definition str_py :: "env \<Rightarrow> pyval \<Rightarrow> string" where
  "str_py env v = (case v of VStr s \<Rightarrow> s | _ \<Rightarrow> py_str env v)"

definition global_action ::
  "env \<Rightarrow> gui \<Rightarrow> pyval \<Rightarrow> pyval \<Rightarrow> pyval \<Rightarrow> (exc + unit) \<times> gui \<times> event list"
where
  "global_action env g ident payload action =
     (if truthy (action_function g) then
        (case Gui_call_function_with_args env g (action_function g) ident action payload of
           (b, g', evs) \<Rightarrow> (Inr (), g', evs))
      else (Inr (), g, []))"

text \<open>
  \<open>global_action\<close> is the last statement of \<^verbatim>\<open>_on_action\<close>, which every path but the
  early return reaches. \<^verbatim>\<open>hasattr\<close> raises \<^verbatim>\<open>TypeError\<close> for a name that is no string.
\<close>

definition Gui_on_action ::
  "env \<Rightarrow> gui \<Rightarrow> pyval \<Rightarrow> pyval \<Rightarrow> (exc + unit) \<times> gui \<times> event list"
where
  "Gui_on_action env g ident payload =
     (let action =
        (case payload of
           VDict d \<Rightarrow> get_dict_value d ''action''
         | _ \<Rightarrow> VStr (str_py env payload))
      in
      if truthy action then
        (case action of
           VStr a \<Rightarrow>
             (if Gui_hasattr g a then
                (case Gui_getattr g a of
                   Inl e \<Rightarrow> (Inl e, g, [])
                 | Inr f \<Rightarrow>
                     (case Gui_call_function_with_args env g f ident VNone payload of
                        (True, g', evs) \<Rightarrow> (Inr (), g', evs)
                      | (False, g', evs) \<Rightarrow>
                          (case global_action env g' ident payload action of
                             (r, g'', evs') \<Rightarrow> (r, g'', evs @ evs'))))
              else global_action env g ident payload action)
         | _ \<Rightarrow> (Inl not_a_string, g, []))
      else global_action env g ident payload action)"

subsection \<open>The dispatcher\<close>

text \<open>The body of the \<^verbatim>\<open>try\<close> of \<^verbatim>\<open>_manage_message\<close>, then its two handlers.\<close>

definition manage_message_try ::
  "env \<Rightarrow> gui \<Rightarrow> msg_type \<Rightarrow> (string \<times> pyval) list \<Rightarrow> (exc + unit) \<times> gui \<times> event list"
where
  "manage_message_try env g msg_type message =
     (if msg_type = WsValue UPDATE then
        (case dict_get message ''name'' of
           Inl e \<Rightarrow> (Inl e, g, [])
         | Inr name \<Rightarrow>
             (case dict_get message ''payload'' of
                Inl e \<Rightarrow> (Inl e, g, [])
              | Inr payload \<Rightarrow>
                  Gui_front_end_update env g name payload
                    (case map_of message ''propagate'' of Some p \<Rightarrow> p | None \<Rightarrow> VBool True)))
      else if msg_type = WsValue ACTION then
        (case dict_get message ''payload'' of
           Inl e \<Rightarrow> (Inl e, g, [])
         | Inr payload \<Rightarrow> Gui_on_action env g (get_dict_value message ''name'') payload)
      else if msg_type = WsValue DATA_UPDATE then
        (case dict_get message ''name'' of
           Inl e \<Rightarrow> (Inl e, g, [])
         | Inr name \<Rightarrow>
             (case dict_get message ''payload'' of
                Inl e \<Rightarrow> (Inl e, g, [])
              | Inr payload \<Rightarrow>
                  (case Gui_request_data_update env g name payload of (r, evs) \<Rightarrow> (r, g, evs))))
      else if msg_type = WsValue REQUEST_UPDATE then
        (case dict_get message ''payload'' of
           Inl e \<Rightarrow> (Inl e, g, [])
         | Inr payload \<Rightarrow>
             (case Gui_request_var_update env g payload of (r, evs) \<Rightarrow> (r, g, evs)))
      else (Inr (), g, []))"

definition Gui_manage_message ::
  "env \<Rightarrow> gui \<Rightarrow> msg_type \<Rightarrow> (string \<times> pyval) list \<Rightarrow> (exc + unit) \<times> gui \<times> event list"
where
  "Gui_manage_message env g msg_type message =
     (case manage_message_try env g msg_type message of
        (Inr u, g', evs) \<Rightarrow> (Inr u, g', evs)
      | (Inl (Exc cls m), g', evs) \<Rightarrow>
          (if cls = TypeError then (Inr (), g', evs @ [Warn (DecodingFailed m)])
           else if cls = KeyError then (Inr (), g', evs @ [Warn (CantAccess m)])
           else (Inl (Exc cls m), g', evs)))"

subsection \<open>Routes\<close>

definition dquote :: "string \<Rightarrow> string" where
  "dquote s = [CHR 0x22] @ s @ [CHR 0x22]"

definition root_page_name :: string where
  "root_page_name = ''TaiPy_root_page''"

text \<open>
  \<^verbatim>\<open>re.compile(r"^[\w\-\/]+$").match(name)\<close> on an ASCII string: one or more word
  characters, dashes and slashes; \<^verbatim>\<open>$\<close> also matches before a newline that ends the
  string. What \<^verbatim>\<open>\w\<close> matches beyond ASCII is the collaborator's.
\<close>

definition page_name_match :: "env \<Rightarrow> string \<Rightarrow> bool" where
  "page_name_match env name =
     (if is_ascii name then
        (let body = (if name \<noteq> [] \<and> last name = CHR 0x0A then butlast name else name)
         in body \<noteq> [] \<and> list_all (\<lambda>c. is_word c \<or> c = CHR ''-'' \<or> c = CHR ''/'') body)
      else unicode_page_name_match env name)"

definition is_PageRenderer :: "renderer_arg \<Rightarrow> bool" where
  "is_PageRenderer r = (case r of PageRenderer n \<Rightarrow> True | OtherObject \<Rightarrow> False)"

definition shown_name :: "string \<Rightarrow> string" where
  "shown_name name = (if name \<noteq> root_page_name then name else ''/'')"

definition Gui_add_page ::
  "env \<Rightarrow> gui \<Rightarrow> string option \<Rightarrow> renderer_arg \<Rightarrow> string \<Rightarrow> (exc + unit) \<times> gui"
where
  "Gui_add_page env g name renderer style =
     (case name of
        None \<Rightarrow> (Inl (Exc Exception ''name is required for add_page function!''), g)
      | Some n \<Rightarrow>
          (if \<not> page_name_match env n then
             (Inl (Exc SyntaxError (''Page name '' @ dquote n @ '' is invalid.'')), g)
           else if take 1 n = ''/'' then
             (Inl (Exc SyntaxError
                (''Page name '' @ dquote n @ '' cannot start with forward slash (/) character'')), g)
           else if n \<in> set (routes g) then
             (Inl (Exc Exception (''Page name '' @ dquote (shown_name n) @ '' is already defined'')), g)
           else if \<not> is_PageRenderer renderer then
             (Inl (Exc Exception
                (''Page name '' @ dquote (shown_name n) @ '' has invalid PageRenderer'')), g)
           else
             (Inr (), g\<lparr>pages := pages g @ [(n, renderer, style)], routes := routes g @ [n]\<rparr>)))"

text \<open>
  \<^verbatim>\<open>add_partial\<close>; \<open>route\<close> is the route of the \<^verbatim>\<open>Partial()\<close> it creates (class
  \<^verbatim>\<open>Partial\<close> is not under src/).
\<close>

definition Gui_add_partial ::
  "gui \<Rightarrow> string \<Rightarrow> renderer_arg \<Rightarrow> (exc + string) \<times> gui \<times> event list"
where
  "Gui_add_partial g route renderer =
     (let evs =
        (if route \<in> set (partial_routes g) \<or> route \<in> set (routes g)
         then [Warn (PartialAlreadyDefined route)] else [])
      in
      if \<not> is_PageRenderer renderer then
        (Inl (Exc Exception (''Partial name '' @ dquote route @ '' has invalid PageRenderer'')), g, evs)
      else
        (Inr route,
         g\<lparr>partials := partials g @ [(route, renderer)],
           partial_routes := partial_routes g @ [route]\<rparr>,
         evs))"

subsection \<open>A concrete engine\<close>

text \<open>
  Collaborators for the concrete runs below: no expression, adapter, accessor or caster
  is registered (the hash of a name is the name, nothing depends on it, values pass
  through unadapted), the channel delivers, and a user function returns at once.
\<close>

definition plain_env :: env where
  "plain_env =
     \<lparr>get_hash_from_expr = (\<lambda>e. e),
      re_evaluate_expr = (\<lambda>g v. ([], g)),
      cast_string_value = (\<lambda>n v. VNone),
      is_data_access = (\<lambda>n v. False),
      get_data = (\<lambda>n v p. Inr v),
      run_adapter_for_var = (\<lambda>n v i b. v),
      get_client_var_name = (\<lambda>n. n),
      ISOToDate = (\<lambda>s. Inl (Exc ValueError s)),
      dateToISO = (\<lambda>t. VStr []),
      py_float = (\<lambda>s. Inl (Exc ValueError s)),
      py_complex = (\<lambda>s. Inl (Exc ValueError s)),
      py_str = (\<lambda>v. []),
      unicode_isidentifier = (\<lambda>s. False),
      unicode_int = (\<lambda>s. Inl (Exc ValueError s)),
      unicode_page_name_match = (\<lambda>s. False),
      value_getattr = (\<lambda>v a. Inl (Exc AttributeError a)),
      path_attrsetter = (\<lambda>sc n v. Inl (Exc AttributeError [])),
      emit = (\<lambda>t f r. None),
      call_function = (\<lambda>f args g. (Inr (), g))\<rparr>"

text \<open>The engine after \<^verbatim>\<open>_bind("count", 0)\<close> on a fresh instance.\<close>

definition count_gui :: gui where
  "count_gui = snd (Gui_bind plain_env Gui_init ''count'' (VInt 0))"

definition is_call :: "event \<Rightarrow> bool" where
  "is_call e = (case e of Call f args \<Rightarrow> True | _ \<Rightarrow> False)"

definition calls :: "event list \<Rightarrow> event list" where
  "calls evs = filter is_call evs"

text \<open>
  Every name of the global scope has its property on the class. \<^verbatim>\<open>_bind\<close> keeps it
  so: it adds the property whenever it writes a name into a scope.
\<close>

definition props_cover_global :: "gui \<Rightarrow> bool" where
  "props_cover_global g = (dom (scopes g GlobalScope) \<subseteq> props g)"

text \<open>A sequence of calls of \<^verbatim>\<open>add_page\<close> and \<^verbatim>\<open>add_partial\<close>, stopped by the first raise.\<close>

datatype route_call = AddPage "string option" renderer_arg string | AddPartial string renderer_arg

fun route_calls :: "env \<Rightarrow> gui \<Rightarrow> route_call list \<Rightarrow> (exc + unit) \<times> gui" where
  "route_calls env g [] = (Inr (), g)"
| "route_calls env g (AddPage name r style # cs) =
     (case Gui_add_page env g name r style of
        (Inl e, g') \<Rightarrow> (Inl e, g')
      | (Inr u, g') \<Rightarrow> route_calls env g' cs)"
| "route_calls env g (AddPartial route r # cs) =
     (case Gui_add_partial g route r of
        (Inl e, g', evs) \<Rightarrow> (Inl e, g')
      | (Inr p, g', evs) \<Rightarrow> route_calls env g' cs)"

text \<open>The engine of \<open>count_gui\<close> with an update callback of three parameters registered.\<close>

definition watched_gui :: gui where
  "watched_gui = count_gui\<lparr>update_function := VFunction ''on_change'' 3\<rparr>"

text \<open>
  Collaborators whose user functions all raise, and an engine with a global action
  callback of three parameters registered.
\<close>

definition raising_env :: env where
  "raising_env = plain_env\<lparr>call_function := (\<lambda>f args g. (Inl (Exc RuntimeError ''boom''), g))\<rparr>"

definition acting_gui :: gui where
  "acting_gui = Gui_init\<lparr>action_function := VFunction ''on_action'' 3\<rparr>"

text \<open>
  Collaborators under which the function \<open>go\<close> raises and every other user function
  returns; an engine to which \<^verbatim>\<open>bind_func\<close> has attached the plain function \<open>go\<close> of
  two parameters, with the global action callback registered; the engine of
  \<open>count_gui\<close> with that callback; a fresh engine in multi-user mode serving a request
  of the session \<open>sid\<close>.
\<close>

definition go_env :: env where
  "go_env = plain_env\<lparr>call_function :=
     (\<lambda>f args g. if f = VFunction ''go'' 2 then (Inl (Exc RuntimeError ''boom''), g) else (Inr (), g))\<rparr>"

definition go_gui :: gui where
  "go_gui = Gui_init\<lparr>attrs := (attrs Gui_init)(''go'' \<mapsto> VFunction ''go'' 2),
                     action_function := VFunction ''on_action'' 3\<rparr>"

definition counting_gui :: gui where
  "counting_gui = count_gui\<lparr>action_function := VFunction ''on_action'' 3\<rparr>"

definition session_gui :: "string \<Rightarrow> gui" where
  "session_gui sid = Gui_init\<lparr>multi_user := True, request_sid := Some sid\<rparr>"

section \<open>Properties\<close>

subsection \<open>Evaluation of the concrete engine\<close>

lemmas char_eval = is_ascii_def is_space_def is_digit_def is_alpha_def is_word_def digit_val_def

lemmas bind_eval = Gui_bind_def Gui_bind_global_def Gui_hasattr_def Gui_getattr_def
  Gui_get_data_scope_def set_data_scope_def get_scope_def isidentifier_def char_eval
  is_dict_def MapDictionary_def Gui_init_def Gui_instance_attributes_def Gui_class_attributes_def
  object_attributes_def bound_method_def

lemma count_gui_eq:
  "count_gui = Gui_init\<lparr>scopes := (\<lambda>s. Map.empty)(GlobalScope := [''count'' \<mapsto> VInt 0]),
                        props := {''count''}\<rparr>"
  by (simp add: count_gui_def bind_eval)

lemmas upd_eval = Gui_manage_message_def manage_message_try_def dict_get_def Gui_front_end_update_def
  coerce_value_def Gui_update_var_def attrgetter_def attrsetter_def Gui_send_var_list_update_def
  Gui_send_ws_update_with_dict_def ws_entry_def ws_payload_def is_datetime_def is_int_def
  is_float_def is_complex_def is_bool_def py_int_def strip_def char_eval Let_def
  Gui_get_data_scope_def set_data_scope_def get_scope_def Gui_get_ws_receiver_def plain_env_def

lemmas page_eval = Gui_add_page_def Gui_add_partial_def page_name_match_def is_PageRenderer_def
  char_eval Gui_init_def

lemma watched_gui_eq:
  "watched_gui = Gui_init\<lparr>scopes := (\<lambda>s. Map.empty)(GlobalScope := [''count'' \<mapsto> VInt 0]),
                        props := {''count''}, update_function := VFunction ''on_change'' 3\<rparr>"
  by (simp add: watched_gui_def count_gui_eq)

lemmas act_eval = Gui_on_action_def global_action_def Gui_call_function_with_args_def action_args_def
  str_py_def get_dict_value_def Gui_hasattr_def Gui_getattr_def Gui_get_data_scope_def get_scope_def
  Gui_init_def Gui_instance_attributes_def Gui_class_attributes_def
  object_attributes_def bound_method_def Let_def

lemma init_free:
  "attrs Gui_init ''go'' = None" "attrs Gui_init ''count'' = None" "attrs Gui_init ''2nd'' = None"
  by (simp_all add: Gui_init_def Gui_instance_attributes_def Gui_class_attributes_def
      object_attributes_def bound_method_def)


lemma go_gui_eval:
  "Gui_getattr go_gui ''go'' = Inr (VFunction ''go'' 2)"
  "action_function go_gui = VFunction ''on_action'' 3"
  by (simp_all add: go_gui_def Gui_getattr_def Gui_init_def)

lemma acting_gui_eval:
  "Gui_getattr acting_gui ''go'' = Inl (Exc AttributeError ''go'')"
  "action_function acting_gui = VFunction ''on_action'' 3"
  using init_free(1) by (simp_all add: acting_gui_def Gui_getattr_def, simp add: Gui_init_def)

lemma counting_gui_eval:
  "Gui_getattr counting_gui ''count'' = Inr (VInt 0)"
  "action_function counting_gui = VFunction ''on_action'' 3"
  by (simp_all add: counting_gui_def count_gui_eq Gui_getattr_def Gui_get_data_scope_def get_scope_def
      Gui_init_def)

lemma acting_gui_run: "Gui_getattr acting_gui ''run'' = Inr (VObject ''run'')"
  by (simp add: acting_gui_def Gui_getattr_def Gui_init_def Gui_instance_attributes_def
      Gui_class_attributes_def object_attributes_def bound_method_def)

subsection \<open>Binding\<close>

lemma get_scope_bind_global: "get_scope (Gui_bind_global g n v) = get_scope g"
  by (simp add: Gui_bind_global_def get_scope_def)

lemma get_scope_set_data_scope: "get_scope (set_data_scope g sc) = get_scope g"
  by (simp add: set_data_scope_def get_scope_def)

text \<open>What a successful \<^verbatim>\<open>_bind\<close> has checked and done.\<close>

lemma bind_ok_state:
  assumes "Gui_bind env g name val = (Inr (), g')"
  shows "name \<in> props g'" and "get_scope g' = get_scope g"
    and "Gui_get_data_scope g' name = Some (MapDictionary val)"
    and "\<not> Gui_hasattr g name" and "isidentifier env name"
  using assms
  by (auto simp: Gui_bind_def Let_def Gui_bind_global_def set_data_scope_def Gui_get_data_scope_def
      get_scope_def MapDictionary_def is_dict_def split: if_splits pyval.splits option.splits)

lemma props_cover_global_init: "props_cover_global Gui_init"
  by (simp add: props_cover_global_def Gui_init_def)

lemma props_cover_global_bind:
  "props_cover_global g \<Longrightarrow> props_cover_global (snd (Gui_bind env g name val))"
  by (auto simp: props_cover_global_def Gui_bind_def Let_def Gui_bind_global_def set_data_scope_def
      Gui_get_data_scope_def split: if_splits)

text \<open>
  C2, as the code has it. A second \<^verbatim>\<open>_bind\<close> of a name, made in the state the first,
  successful one leaves (the same request or session, so the same active scope), raises
  the \<^verbatim>\<open>ValueError\<close> "already bound"; a \<^verbatim>\<open>_bind\<close> of a name that is no identifier
  raises a \<^verbatim>\<open>ValueError\<close> too ("already bound" when the engine has an attribute of that
  name, "invalid" otherwise). In both cases the state returned is the state given: no
  scope is modified.
\<close>

theorem bind_twice_fails:
  "(Gui_bind env g v x = (Inr (), g') \<longrightarrow> Gui_bind env g' v y = (Inl (already_bound v), g'))
   \<and> (\<not> isidentifier env v \<longrightarrow>
        Gui_bind env g v x = (Inl (already_bound v), g) \<or> Gui_bind env g v x = (Inl (invalid_name v), g))"
proof (intro conjI impI)
  assume ok: "Gui_bind env g v x = (Inr (), g')"
  have "Gui_hasattr g' v"
    using bind_ok_state(1,3)[OF ok] by (simp add: Gui_hasattr_def Gui_getattr_def)
  then show "Gui_bind env g' v y = (Inl (already_bound v), g')"
    by (simp add: Gui_bind_def)
next
  assume "\<not> isidentifier env v"
  then show "Gui_bind env g v x = (Inl (already_bound v), g) \<or> Gui_bind env g v x = (Inl (invalid_name v), g)"
    by (simp add: Gui_bind_def)
qed

theorem bind_twice_fails_witness:
  "Gui_bind plain_env Gui_init ''count'' (VInt 0) = (Inr (), count_gui)
   \<and> Gui_bind plain_env count_gui ''count'' (VInt 7) = (Inl (already_bound ''count''), count_gui)
   \<and> \<not> isidentifier plain_env ''2nd''
   \<and> Gui_bind plain_env Gui_init ''2nd'' (VInt 0) = (Inl (invalid_name ''2nd''), Gui_init)"
proof -
  have ok: "Gui_bind plain_env Gui_init ''count'' (VInt 0) = (Inr (), count_gui)"
    by (simp add: count_gui_def bind_eval)
  have bad: "\<not> isidentifier plain_env ''2nd''"
    by (simp add: isidentifier_def char_eval)
  have fresh: "\<not> Gui_hasattr Gui_init ''2nd''"
    by (simp add: bind_eval)
  from bind_twice_fails [of plain_env Gui_init "''count''" "VInt 0" count_gui "VInt 7"] ok
  have second: "Gui_bind plain_env count_gui ''count'' (VInt 7) = (Inl (already_bound ''count''), count_gui)"
    by blast
  from bind_twice_fails [of plain_env Gui_init "''2nd''" "VInt 0" count_gui "VInt 7"] bad
  have "Gui_bind plain_env Gui_init ''2nd'' (VInt 0) = (Inl (already_bound ''2nd''), Gui_init)
      \<or> Gui_bind plain_env Gui_init ''2nd'' (VInt 0) = (Inl (invalid_name ''2nd''), Gui_init)"
    by blast
  moreover have "Gui_bind plain_env Gui_init ''2nd'' (VInt 0) \<noteq> (Inl (already_bound ''2nd''), Gui_init)"
    using fresh by (simp add: Gui_bind_def bad already_bound_def invalid_name_def)
  ultimately show ?thesis using ok second bad by blast
qed

text \<open>
  In multi-user mode session \<open>A\<close> binds \<open>count\<close>; the same \<^verbatim>\<open>_bind\<close> in a request of
  session \<open>B\<close>, whose scope does not hold \<open>count\<close>, succeeds.
\<close>

theorem bind_other_session_counterexample:
  "fst (Gui_bind plain_env (session_gui ''A'') ''count'' (VInt 0)) = Inr ()
   \<and> fst (Gui_bind plain_env
           ((snd (Gui_bind plain_env (session_gui ''A'') ''count'' (VInt 0)))\<lparr>request_sid := Some ''B''\<rparr>)
           ''count'' (VInt 7)) = Inr ()"
proof -
  have a: "Gui_bind plain_env (session_gui ''A'') ''count'' (VInt 0)
      = (Inr (), (session_gui ''A'')\<lparr>scopes := (\<lambda>s. Map.empty)(ClientScope ''A'' := [''count'' \<mapsto> VInt 0],
              GlobalScope := [''count'' \<mapsto> VInt 0]), props := {''count''}\<rparr>)"
    using init_free(2)
    by (simp add: session_gui_def Gui_bind_def Gui_bind_global_def Gui_hasattr_def Gui_getattr_def
      Gui_get_data_scope_def set_data_scope_def get_scope_def isidentifier_def char_eval is_dict_def,
      simp add: Gui_init_def)
  show ?thesis
    unfolding a using init_free(2)
    by (simp add: session_gui_def Gui_bind_def Gui_bind_global_def Gui_hasattr_def Gui_getattr_def
      Gui_get_data_scope_def set_data_scope_def get_scope_def isidentifier_def char_eval is_dict_def Gui_init_def)
qed

text \<open>
  C9. A successful \<^verbatim>\<open>_bind\<close> writes the value (a dict wrapped) into the scope of the
  binding session, and into the global scope only when the global scope has no value
  under that name: a value already there stays. The engine is in a state \<^verbatim>\<open>_bind\<close>
  can have produced (\<open>props_cover_global\<close>).
\<close>

theorem bind_global_first_wins:
  assumes ok: "Gui_bind env g name val = (Inr (), g')"
    and inv: "props_cover_global g"
  shows "scopes g' GlobalScope name =
           (case scopes g GlobalScope name of
              Some old \<Rightarrow> Some old
            | None \<Rightarrow> Some (MapDictionary val))
         \<and> Gui_get_data_scope g' name = Some (MapDictionary val)"
proof -
  have nh: "\<not> Gui_hasattr g name" by (rule bind_ok_state(4)[OF ok])
  have own: "Gui_get_data_scope g' name = Some (MapDictionary val)" by (rule bind_ok_state(3)[OF ok])
  show ?thesis
  proof (cases "scopes g GlobalScope name")
    case None
    then show ?thesis using ok own
      by (auto simp: Gui_bind_def Let_def Gui_bind_global_def set_data_scope_def Gui_get_data_scope_def
          MapDictionary_def is_dict_def split: if_splits pyval.splits)
  next
    case (Some old)
    then have "name \<in> props g" using inv by (auto simp: props_cover_global_def)
    with nh Some have "get_scope g \<noteq> GlobalScope"
      by (auto simp: Gui_hasattr_def Gui_getattr_def Gui_get_data_scope_def)
    then show ?thesis using ok own Some
      by (auto simp: Gui_bind_def Let_def Gui_bind_global_def set_data_scope_def Gui_get_data_scope_def
          MapDictionary_def is_dict_def split: if_splits pyval.splits)
  qed
qed

text \<open>
  Session \<open>B\<close> binds \<open>count\<close> to 7 after \<open>count\<close> was bound to 0: the global scope
  keeps 0, the scope of \<open>B\<close> holds 7.
\<close>

theorem bind_global_first_wins_witness:
  "Gui_bind plain_env (count_gui\<lparr>multi_user := True, request_sid := Some ''B''\<rparr>) ''count'' (VInt 7)
     = (Inr (), count_gui\<lparr>multi_user := True, request_sid := Some ''B'',
          scopes := (scopes count_gui)(ClientScope ''B'' := [''count'' \<mapsto> VInt 7])\<rparr>)
   \<and> props_cover_global (count_gui\<lparr>multi_user := True, request_sid := Some ''B''\<rparr>)
   \<and> scopes count_gui GlobalScope ''count'' = Some (VInt 0)
   \<and> scopes (count_gui\<lparr>multi_user := True, request_sid := Some ''B'',
          scopes := (scopes count_gui)(ClientScope ''B'' := [''count'' \<mapsto> VInt 7])\<rparr>) GlobalScope ''count''
       = Some (VInt 0)
   \<and> Gui_get_data_scope (count_gui\<lparr>multi_user := True, request_sid := Some ''B'',
          scopes := (scopes count_gui)(ClientScope ''B'' := [''count'' \<mapsto> VInt 7])\<rparr>) ''count''
       = Some (VInt 7)"
proof -
  let ?g = "count_gui\<lparr>multi_user := True, request_sid := Some ''B''\<rparr>"
  let ?g' = "count_gui\<lparr>multi_user := True, request_sid := Some ''B'',
          scopes := (scopes count_gui)(ClientScope ''B'' := [''count'' \<mapsto> VInt 7])\<rparr>"
  have ok: "Gui_bind plain_env ?g ''count'' (VInt 7) = (Inr (), ?g')"
    by (simp add: count_gui_eq bind_eval)
  have inv: "props_cover_global ?g"
    by (simp add: count_gui_eq props_cover_global_def Gui_init_def)
  have old: "scopes count_gui GlobalScope ''count'' = Some (VInt 0)"
    by (simp add: count_gui_eq)
  from bind_global_first_wins [OF ok inv] old ok inv show ?thesis
    by (simp add: MapDictionary_def)
qed

text \<open>
  C10. \<^verbatim>\<open>bind_var_val\<close> on a name the engine already has (\<^verbatim>\<open>hasattr(self, var_name)\<close>,
  as it is in the state a successful \<^verbatim>\<open>_bind\<close> of that name leaves) returns
  \<^verbatim>\<open>False\<close>, raises nothing and returns the state it was given: no scope changes.
\<close>

theorem bind_var_val_bound:
  "(Gui_hasattr g var_name \<longrightarrow> Gui_bind_var_val env g var_name val = (Inr False, g))
   \<and> (Gui_bind env g0 var_name val0 = (Inr (), g) \<longrightarrow> Gui_bind_var_val env g var_name val = (Inr False, g))"
proof (intro conjI impI)
  assume "Gui_hasattr g var_name"
  then show "Gui_bind_var_val env g var_name val = (Inr False, g)"
    by (simp add: Gui_bind_var_val_def)
next
  assume ok: "Gui_bind env g0 var_name val0 = (Inr (), g)"
  have "Gui_hasattr g var_name"
    using bind_ok_state(1,3)[OF ok] by (simp add: Gui_hasattr_def Gui_getattr_def)
  then show "Gui_bind_var_val env g var_name val = (Inr False, g)"
    by (simp add: Gui_bind_var_val_def)
qed

theorem bind_var_val_bound_witness:
  "Gui_hasattr count_gui ''count''
   \<and> Gui_bind plain_env Gui_init ''count'' (VInt 0) = (Inr (), count_gui)
   \<and> Gui_bind_var_val plain_env count_gui ''count'' (VInt 7) = (Inr False, count_gui)"
proof -
  have h: "Gui_hasattr count_gui ''count''"
    by (simp add: count_gui_eq Gui_hasattr_def Gui_getattr_def Gui_get_data_scope_def
        get_scope_def Gui_init_def)
  have ok: "Gui_bind plain_env Gui_init ''count'' (VInt 0) = (Inr (), count_gui)"
    by (simp add: count_gui_def bind_eval)
  from bind_var_val_bound [of count_gui "''count''" plain_env "VInt 7" Gui_init "VInt 0"] h ok
  show ?thesis by blast
qed

subsection \<open>Routes\<close>

lemma add_page_routes:
  "Gui_add_page env g name r style = (Inr (), g') \<Longrightarrow>
     \<exists>n. name = Some n \<and> n \<notin> set (routes g) \<and> routes g' = routes g @ [n]"
  by (auto simp: Gui_add_page_def split: option.splits if_splits)

lemma add_partial_routes:
  "Gui_add_partial g route r = (Inr p, g', evs) \<Longrightarrow> routes g' = routes g"
  by (auto simp: Gui_add_partial_def Let_def split: if_splits)

lemma route_calls_distinct:
  "distinct (routes g) \<Longrightarrow> route_calls env g cs = (Inr (), g') \<Longrightarrow> distinct (routes g')"
proof (induction cs arbitrary: g)
  case Nil
  then show ?case by simp
next
  case (Cons c cs)
  show ?case
  proof (cases c)
    case (AddPage name r style)
    with Cons.prems(2) obtain g1 where
      step: "Gui_add_page env g name r style = (Inr (), g1)" and rest: "route_calls env g1 cs = (Inr (), g')"
      by (auto split: prod.splits sum.splits)
    from add_page_routes [OF step] Cons.prems(1) have "distinct (routes g1)" by auto
    then show ?thesis using rest by (rule Cons.IH)
  next
    case (AddPartial route r)
    with Cons.prems(2) obtain g1 p evs where
      step: "Gui_add_partial g route r = (Inr p, g1, evs)" and rest: "route_calls env g1 cs = (Inr (), g')"
      by (auto split: prod.splits sum.splits)
    from add_partial_routes [OF step] Cons.prems(1) have "distinct (routes g1)" by simp
    then show ?thesis using rest by (rule Cons.IH)
  qed
qed

text \<open>
  C8, as the code has it. After every sequence of \<^verbatim>\<open>add_page\<close> and \<^verbatim>\<open>add_partial\<close>
  calls that all complete without raising, the page routes are pairwise distinct, and
  \<^verbatim>\<open>add_page\<close> rejects a name that is already a page route with an error, leaving the
  state as it was. (Nothing compares a page name with the reserved routes or with the
  routes of the partials; \<^verbatim>\<open>add_partial\<close> answers a collision with a warning.)
\<close>

theorem page_routes_distinct:
  "(distinct (routes g) \<and> route_calls env g cs = (Inr (), g') \<longrightarrow> distinct (routes g'))
   \<and> (n \<in> set (routes g) \<longrightarrow>
        fst (Gui_add_page env g (Some n) r style) \<noteq> Inr () \<and> snd (Gui_add_page env g (Some n) r style) = g)"
  using route_calls_distinct [of g env cs g']
  by (auto simp: Gui_add_page_def)

theorem page_routes_distinct_witness:
  "distinct (routes Gui_init)
   \<and> route_calls plain_env Gui_init [AddPage (Some ''home'') (PageRenderer ''md'') [], AddPartial ''TaiPy_partials_0'' (PageRenderer ''md'')]
       = (Inr (), Gui_init\<lparr>pages := [(''home'', PageRenderer ''md'', [])], routes := [''home''],
            partials := [(''TaiPy_partials_0'', PageRenderer ''md'')], partial_routes := [''TaiPy_partials_0'']\<rparr>)
   \<and> distinct (routes (Gui_init\<lparr>pages := [(''home'', PageRenderer ''md'', [])], routes := [''home''],
            partials := [(''TaiPy_partials_0'', PageRenderer ''md'')], partial_routes := [''TaiPy_partials_0'']\<rparr>))
   \<and> ''home'' \<in> set (routes (Gui_init\<lparr>routes := [''home'']\<rparr>))
   \<and> fst (Gui_add_page plain_env (Gui_init\<lparr>routes := [''home'']\<rparr>) (Some ''home'') (PageRenderer ''md'') []) \<noteq> Inr ()
   \<and> snd (Gui_add_page plain_env (Gui_init\<lparr>routes := [''home'']\<rparr>) (Some ''home'') (PageRenderer ''md'') []) = Gui_init\<lparr>routes := [''home'']\<rparr>"
proof -
  let ?g' = "Gui_init\<lparr>pages := [(''home'', PageRenderer ''md'', [])], routes := [''home''],
            partials := [(''TaiPy_partials_0'', PageRenderer ''md'')], partial_routes := [''TaiPy_partials_0'']\<rparr>"
  have d: "distinct (routes Gui_init)" by (simp add: Gui_init_def)
  have run: "route_calls plain_env Gui_init [AddPage (Some ''home'') (PageRenderer ''md'') [], AddPartial ''TaiPy_partials_0'' (PageRenderer ''md'')]
       = (Inr (), ?g')"
    by (simp add: page_eval)
  have m: "''home'' \<in> set (routes (Gui_init\<lparr>routes := [''home'']\<rparr>))" by simp
  from page_routes_distinct [of Gui_init plain_env _ ?g' "''home''" "PageRenderer ''md''" "[]"] d run
  have a: "distinct (routes ?g')" by blast
  from page_routes_distinct [of "Gui_init\<lparr>routes := [''home'']\<rparr>" plain_env "[]" "Gui_init\<lparr>routes := [''home'']\<rparr>" "''home''" "PageRenderer ''md''" "[]"] m
  have b: "fst (Gui_add_page plain_env (Gui_init\<lparr>routes := [''home'']\<rparr>) (Some ''home'') (PageRenderer ''md'') []) \<noteq> Inr ()
   \<and> snd (Gui_add_page plain_env (Gui_init\<lparr>routes := [''home'']\<rparr>) (Some ''home'') (PageRenderer ''md'') []) = Gui_init\<lparr>routes := [''home'']\<rparr>"
    by blast
  show ?thesis using d run a m b by blast
qed

text \<open>
  \<^verbatim>\<open>add_page\<close> accepts the reserved route \<open>initialize\<close>, and a page may take the route
  of a partial registered before it.
\<close>

theorem routes_not_checked_counterexample:
  "fst (Gui_add_page plain_env Gui_init (Some ''initialize'') (PageRenderer ''md'') []) = Inr ()
   \<and> ''initialize'' \<in> set (routes (snd (Gui_add_page plain_env Gui_init (Some ''initialize'') (PageRenderer ''md'') [])))
   \<and> ''initialize'' \<in> set (reserved_routes (snd (Gui_add_page plain_env Gui_init (Some ''initialize'') (PageRenderer ''md'') [])))
   \<and> fst (route_calls plain_env Gui_init [AddPartial ''shared'' (PageRenderer ''md''), AddPage (Some ''shared'') (PageRenderer ''md'') []]) = Inr ()
   \<and> ''shared'' \<in> set (routes (snd (route_calls plain_env Gui_init [AddPartial ''shared'' (PageRenderer ''md''), AddPage (Some ''shared'') (PageRenderer ''md'') []])))
   \<and> ''shared'' \<in> set (partial_routes (snd (route_calls plain_env Gui_init [AddPartial ''shared'' (PageRenderer ''md''), AddPage (Some ''shared'') (PageRenderer ''md'') []])))"
  by (simp add: page_eval)

subsection \<open>Inbound updates\<close>

text \<open>
  C1. \<open>count\<close> holds the int 0 in the active scope and no update callback is
  registered. The collaborators are those of an engine with nothing else registered: the
  hash of \<open>count\<close> is \<open>count\<close>, no expression depends on it, no accessor and no
  adapter applies to the int 5, the client name of \<open>count\<close> is \<open>count\<close>, the channel
  delivers. Then the UPDATE message with payload \<open>"5"\<close> and no \<open>propagate\<close> key returns
  normally, the active scope holds the int 5 under \<open>count\<close>, and one MULTIPLE_UPDATE
  message is emitted whose payload is the entry \<open>{name: count, payload: {value: 5}}\<close>.
\<close>

theorem update_count:
  assumes bound: "Gui_get_data_scope g ''count'' = Some (VInt 0)"
    and no_cb: "update_function g = VNone"
    and hash: "get_hash_from_expr env (VStr ''count'') = VStr ''count''"
    and nodeps: "\<And>g0. re_evaluate_expr env g0 (VStr ''count'') = ([], g0)"
    and noacc: "\<not> is_data_access env ''count'' (VInt 5)"
    and noadapt: "run_adapter_for_var env ''count'' (VInt 5) None True = VInt 5"
    and cname: "get_client_var_name env ''count'' = ''count''"
    and chan: "\<And>t f r. emit env t f r = None"
  shows "Gui_manage_message env g (WsValue UPDATE) [(''name'', VStr ''count''), (''payload'', VStr ''5'')]
       = (Inr (),
          set_data_scope g ((Gui_get_data_scope g)(''count'' \<mapsto> VInt 5)),
          [Broadcast ''count'' (VInt 5),
           Emit MULTIPLE_UPDATE
             [(''payload'', VList [VDict [(''name'', VStr ''count''), (''payload'', VDict [(''value'', VInt 5)])]])]
             (Gui_get_ws_receiver g)])"
proof -
  let ?g1 = "set_data_scope g ((Gui_get_data_scope g)(''count'' \<mapsto> VInt 5))"
  have cur: "attrgetter env (VStr ''count'') (Gui_get_data_scope g) = Inr (VInt 0)"
    by (simp add: attrgetter_def bound)
  have co: "coerce_value env (VStr ''count'') (VInt 0) (VStr ''5'') = Inr (Some (VInt 5))"
    by (simp add: coerce_value_def is_datetime_def is_int_def py_int_def strip_def char_eval)
  have g1: "Gui_get_data_scope ?g1 ''count'' = Some (VInt 5)" "update_function ?g1 = VNone"
    "Gui_get_ws_receiver ?g1 = Gui_get_ws_receiver g"
    by (simp_all add: set_data_scope_def Gui_get_data_scope_def get_scope_def no_cb Gui_get_ws_receiver_def)
  have send: "Gui_send_var_list_update env ?g1 [VStr ''count''] =
      (Inr (), [Broadcast ''count'' (VInt 5),
           Emit MULTIPLE_UPDATE
             [(''payload'', VList [VDict [(''name'', VStr ''count''), (''payload'', VDict [(''value'', VInt 5)])]])]
             (Gui_get_ws_receiver g)])"
    by (simp add: Gui_send_var_list_update_def attrgetter_def g1 noacc noadapt Let_def
        Gui_send_ws_update_with_dict_def ws_entry_def ws_payload_def cname chan)
  have upd: "Gui_update_var env g (VStr ''count'') (VInt 5) (VBool True) =
      (Inr (), ?g1, [Broadcast ''count'' (VInt 5),
           Emit MULTIPLE_UPDATE
             [(''payload'', VList [VDict [(''name'', VStr ''count''), (''payload'', VDict [(''value'', VInt 5)])]])]
             (Gui_get_ws_receiver g)])"
    by (simp add: Gui_update_var_def hash attrsetter_def nodeps g1 send)
  show ?thesis
    by (simp add: Gui_manage_message_def manage_message_try_def dict_get_def Gui_front_end_update_def
        hash cur co upd)
qed

theorem update_count_witness:
  "Gui_bind plain_env Gui_init ''count'' (VInt 0) = (Inr (), count_gui)
   \<and> Gui_get_data_scope count_gui ''count'' = Some (VInt 0)
   \<and> fst (Gui_manage_message plain_env count_gui (WsValue UPDATE) [(''name'', VStr ''count''), (''payload'', VStr ''5'')]) = Inr ()
   \<and> Gui_get_data_scope (fst (snd (Gui_manage_message plain_env count_gui (WsValue UPDATE) [(''name'', VStr ''count''), (''payload'', VStr ''5'')]))) ''count'' = Some (VInt 5)
   \<and> snd (snd (Gui_manage_message plain_env count_gui (WsValue UPDATE) [(''name'', VStr ''count''), (''payload'', VStr ''5'')]))
      = [Broadcast ''count'' (VInt 5),
           Emit MULTIPLE_UPDATE
             [(''payload'', VList [VDict [(''name'', VStr ''count''), (''payload'', VDict [(''value'', VInt 5)])]])]
             None]"
proof -
  have b: "Gui_bind plain_env Gui_init ''count'' (VInt 0) = (Inr (), count_gui)"
    by (simp add: count_gui_def bind_eval)
  have bound: "Gui_get_data_scope count_gui ''count'' = Some (VInt 0)"
    by (simp add: count_gui_eq Gui_get_data_scope_def get_scope_def Gui_init_def)
  have no_cb: "update_function count_gui = VNone"
    by (simp add: count_gui_eq Gui_init_def)
  have r: "Gui_get_ws_receiver count_gui = None"
    by (simp add: count_gui_eq Gui_get_ws_receiver_def Gui_init_def)
  have s: "Gui_get_data_scope (set_data_scope count_gui ((Gui_get_data_scope count_gui)(''count'' \<mapsto> VInt 5))) ''count'' = Some (VInt 5)"
    by (simp add: set_data_scope_def Gui_get_data_scope_def get_scope_def)
  have "Gui_manage_message plain_env count_gui (WsValue UPDATE) [(''name'', VStr ''count''), (''payload'', VStr ''5'')]
       = (Inr (),
          set_data_scope count_gui ((Gui_get_data_scope count_gui)(''count'' \<mapsto> VInt 5)),
          [Broadcast ''count'' (VInt 5),
           Emit MULTIPLE_UPDATE
             [(''payload'', VList [VDict [(''name'', VStr ''count''), (''payload'', VDict [(''value'', VInt 5)])]])]
             (Gui_get_ws_receiver count_gui)])"
    by (rule update_count [OF bound no_cb]) (simp_all add: plain_env_def)
  then show ?thesis using b bound r s by simp
qed









lemma send_var_list_update_state:
  "scopes (fst (snd (case Gui_send_var_list_update env g2 mv of (r, evs') \<Rightarrow> (r, g2, h evs')))) = scopes g2"
  by (cases "Gui_send_var_list_update env g2 mv") simp

lemma update_var_no_propagate:
  assumes np: "\<not> truthy p"
    and cb: "\<And>args g0. scopes (snd (call_function env (update_function g) args g0)) = scopes g0"
  shows "scopes (fst (snd (Gui_update_var env g n v p))) = scopes g"
proof (cases "truthy (update_function g)")
  case False
  with np show ?thesis
    by (simp add: Gui_update_var_def Let_def send_var_list_update_state)
next
  case True
  obtain r g2 where cf: "call_function env (update_function g) [VSelf, n, v] g = (r, g2)"
    by (cases "call_function env (update_function g) [VSelf, n, v] g")
  from cb [of "[VSelf, n, v]" g] cf have "scopes g2 = scopes g" by simp
  with np True cf show ?thesis
    by (cases r) (simp_all add: Gui_update_var_def Let_def send_var_list_update_state)
qed

text \<open>
  C4. An UPDATE message whose \<open>propagate\<close> is false (or any other falsy value) leaves
  every variable of every scope as it was: the engine neither writes the value nor
  re-evaluates dependents. What a registered update callback does is its own: it is
  taken not to write into the scopes.
\<close>

theorem no_propagate_no_write:
  assumes p: "map_of message ''propagate'' = Some p"
    and np: "\<not> truthy p"
    and cb: "\<And>args g0. scopes (snd (call_function env (update_function g) args g0)) = scopes g0"
  shows "scopes (fst (snd (Gui_manage_message env g (WsValue UPDATE) message))) = scopes g"
proof -
  have fe: "scopes (fst (snd (Gui_front_end_update env g n v p))) = scopes g" for n v
    using update_var_no_propagate [OF np cb]
    by (simp add: Gui_front_end_update_def split: sum.splits option.splits)
  have tr: "scopes (fst (snd (manage_message_try env g (WsValue UPDATE) message))) = scopes g"
    by (simp add: manage_message_try_def p fe split: sum.splits)
  obtain r g' evs where t: "manage_message_try env g (WsValue UPDATE) message = (r, g', evs)"
    by (cases "manage_message_try env g (WsValue UPDATE) message")
  with tr have "scopes g' = scopes g" by simp
  with t show ?thesis
    by (simp add: Gui_manage_message_def split: sum.splits exc.splits)
qed

theorem no_propagate_no_write_witness:
  "map_of [(''name'', VStr ''count''), (''payload'', VStr ''5''), (''propagate'', VBool False)] ''propagate'' = Some (VBool False)
   \<and> \<not> truthy (VBool False)
   \<and> fst (Gui_manage_message plain_env watched_gui (WsValue UPDATE)
        [(''name'', VStr ''count''), (''payload'', VStr ''5''), (''propagate'', VBool False)]) = Inr ()
   \<and> scopes (fst (snd (Gui_manage_message plain_env watched_gui (WsValue UPDATE)
        [(''name'', VStr ''count''), (''payload'', VStr ''5''), (''propagate'', VBool False)]))) = scopes watched_gui
   \<and> Gui_get_data_scope watched_gui ''count'' = Some (VInt 0)"
proof -
  have p: "map_of [(''name'', VStr ''count''), (''payload'', VStr ''5''), (''propagate'', VBool False)] ''propagate'' = Some (VBool False)"
    by simp
  have np: "\<not> truthy (VBool False)" by simp
  have cb: "\<And>args g0. scopes (snd (call_function plain_env (update_function watched_gui) args g0)) = scopes g0"
    by (simp add: plain_env_def)
  have ok: "fst (Gui_manage_message plain_env watched_gui (WsValue UPDATE)
        [(''name'', VStr ''count''), (''payload'', VStr ''5''), (''propagate'', VBool False)]) = Inr ()"
    by (simp add: watched_gui_eq upd_eval Gui_init_def)
  have v: "Gui_get_data_scope watched_gui ''count'' = Some (VInt 0)"
    by (simp add: watched_gui_eq Gui_get_data_scope_def get_scope_def Gui_init_def)
  show ?thesis using p np ok v no_propagate_no_write [OF p np cb] by simp
qed

subsection \<open>The dispatcher\<close>

text \<open>
  C5, as the code has it. A message whose type is none of UPDATE, ACTION, DATA_UPDATE and
  REQUEST_UPDATE is dropped: the handler returns normally, changes nothing and logs
  nothing. No \<^verbatim>\<open>TypeError\<close> and no \<^verbatim>\<open>KeyError\<close> ever leaves the handler: they are the
  two classes it catches, each with a warning. So a message of a known type that lacks a
  key the handler reads is dropped with the warning "Can't access", and a REQUEST_UPDATE
  whose payload is a number is dropped with the warning "Decoding Message has failed".
\<close>

theorem dispatcher_catches:
  "(msg_type \<notin> {WsValue UPDATE, WsValue ACTION, WsValue DATA_UPDATE, WsValue REQUEST_UPDATE} \<longrightarrow>
      Gui_manage_message env g msg_type message = (Inr (), g, []))
   \<and> (\<forall>m. fst (Gui_manage_message env g msg_type message) \<noteq> Inl (Exc TypeError m)
          \<and> fst (Gui_manage_message env g msg_type message) \<noteq> Inl (Exc KeyError m))
   \<and> ((msg_type \<in> {WsValue UPDATE, WsValue DATA_UPDATE}
          \<and> (map_of message ''name'' = None \<or> map_of message ''payload'' = None)
        \<or> msg_type \<in> {WsValue ACTION, WsValue REQUEST_UPDATE} \<and> map_of message ''payload'' = None) \<longrightarrow>
       (\<exists>k. Gui_manage_message env g msg_type message = (Inr (), g, [Warn (CantAccess k)])))
   \<and> (msg_type = WsValue REQUEST_UPDATE \<and> map_of message ''payload'' = Some (VInt n) \<longrightarrow>
       Gui_manage_message env g msg_type message
         = (Inr (), g, [Warn (DecodingFailed ''argument is not iterable'')]))"
proof (intro conjI impI allI)
  assume "msg_type \<notin> {WsValue UPDATE, WsValue ACTION, WsValue DATA_UPDATE, WsValue REQUEST_UPDATE}"
  then show "Gui_manage_message env g msg_type message = (Inr (), g, [])"
    by (simp add: Gui_manage_message_def manage_message_try_def)
next
  fix m
  obtain r g' evs where t: "manage_message_try env g msg_type message = (r, g', evs)"
    by (cases "manage_message_try env g msg_type message")
  show "fst (Gui_manage_message env g msg_type message) \<noteq> Inl (Exc TypeError m)"
    using t by (auto simp: Gui_manage_message_def split: sum.splits exc.splits)
  show "fst (Gui_manage_message env g msg_type message) \<noteq> Inl (Exc KeyError m)"
    using t by (auto simp: Gui_manage_message_def split: sum.splits exc.splits)
next
  assume "msg_type \<in> {WsValue UPDATE, WsValue DATA_UPDATE}
          \<and> (map_of message ''name'' = None \<or> map_of message ''payload'' = None)
        \<or> msg_type \<in> {WsValue ACTION, WsValue REQUEST_UPDATE} \<and> map_of message ''payload'' = None"
  then show "\<exists>k. Gui_manage_message env g msg_type message = (Inr (), g, [Warn (CantAccess k)])"
    by (auto simp: Gui_manage_message_def manage_message_try_def dict_get_def split: option.splits)
next
  assume "msg_type = WsValue REQUEST_UPDATE \<and> map_of message ''payload'' = Some (VInt n)"
  then show "Gui_manage_message env g msg_type message
         = (Inr (), g, [Warn (DecodingFailed ''argument is not iterable'')])"
    by (simp add: Gui_manage_message_def manage_message_try_def dict_get_def Gui_request_var_update_def)
qed

theorem dispatcher_catches_witness:
  "OtherType (VStr ''PING'') \<notin> {WsValue UPDATE, WsValue ACTION, WsValue DATA_UPDATE, WsValue REQUEST_UPDATE}
   \<and> Gui_manage_message plain_env count_gui (OtherType (VStr ''PING'')) [(''payload'', VInt 1)]
       = (Inr (), count_gui, [])
   \<and> map_of [(''name'', VStr ''count'')] ''payload'' = None
   \<and> Gui_manage_message plain_env count_gui (WsValue UPDATE) [(''name'', VStr ''count'')]
       = (Inr (), count_gui, [Warn (CantAccess (quote ''payload''))])
   \<and> map_of [(''payload'', VInt 3)] ''payload'' = Some (VInt 3)
   \<and> Gui_manage_message plain_env count_gui (WsValue REQUEST_UPDATE) [(''payload'', VInt 3)]
       = (Inr (), count_gui, [Warn (DecodingFailed ''argument is not iterable'')])"
proof -
  have a: "OtherType (VStr ''PING'') \<notin> {WsValue UPDATE, WsValue ACTION, WsValue DATA_UPDATE, WsValue REQUEST_UPDATE}"
    by simp
  have b: "map_of [(''name'', VStr ''count'')] ''payload'' = None" by simp
  have c: "map_of [(''payload'', VInt 3)] ''payload'' = Some (VInt 3)" by simp
  from dispatcher_catches [of "OtherType (VStr ''PING'')" plain_env count_gui "[(''payload'', VInt 1)]" 1] a
  have r1: "Gui_manage_message plain_env count_gui (OtherType (VStr ''PING'')) [(''payload'', VInt 1)]
       = (Inr (), count_gui, [])" by blast
  from dispatcher_catches [of "WsValue UPDATE" plain_env count_gui "[(''name'', VStr ''count'')]" 1] b
  have "\<exists>k. Gui_manage_message plain_env count_gui (WsValue UPDATE) [(''name'', VStr ''count'')]
       = (Inr (), count_gui, [Warn (CantAccess k)])" by blast
  then have r2: "Gui_manage_message plain_env count_gui (WsValue UPDATE) [(''name'', VStr ''count'')]
       = (Inr (), count_gui, [Warn (CantAccess (quote ''payload''))])"
    by (auto simp: Gui_manage_message_def manage_message_try_def dict_get_def)
  from dispatcher_catches [of "WsValue REQUEST_UPDATE" plain_env count_gui "[(''payload'', VInt 3)]" 3] c
  have r3: "Gui_manage_message plain_env count_gui (WsValue REQUEST_UPDATE) [(''payload'', VInt 3)]
       = (Inr (), count_gui, [Warn (DecodingFailed ''argument is not iterable'')])" by blast
  show ?thesis using a b c r1 r2 r3 by blast
qed

text \<open>
  An UPDATE of the int variable \<open>count\<close> with the payload \<open>"abc"\<close> leaves the handler
  as a \<^verbatim>\<open>ValueError\<close>; a message of an unknown type is dropped without a warning.
\<close>

theorem dispatcher_raises_counterexample:
  "Gui_manage_message plain_env count_gui (WsValue UPDATE) [(''name'', VStr ''count''), (''payload'', VStr ''abc'')]
     = (Inl (invalid_literal ''abc''), count_gui, [])
   \<and> Gui_manage_message plain_env count_gui (OtherType (VStr ''PING'')) [] = (Inr (), count_gui, [])"
  by (simp add: count_gui_eq upd_eval Gui_init_def invalid_literal_def)

subsection \<open>Actions\<close>

lemma global_action_ok: "fst (global_action env g ident payload action) = Inr ()"
  by (simp add: global_action_def split: prod.splits)

lemma on_action_str_ok: "fst (Gui_on_action env g ident payload) = Inr ()"
  if "\<And>d. payload = VDict d \<Longrightarrow> (\<exists>a. get_dict_value d ''action'' = VStr a) \<or> \<not> truthy (get_dict_value d ''action'')"
proof -
  define action where "action = (case payload of VDict d \<Rightarrow> get_dict_value d ''action'' | _ \<Rightarrow> VStr (str_py env payload))"
  have shape: "(\<exists>a. action = VStr a) \<or> \<not> truthy action"
    using that by (cases payload) (auto simp: action_def)
  have unf: "Gui_on_action env g ident payload =
      (if truthy action then
        (case action of
           VStr a \<Rightarrow>
             (if Gui_hasattr g a then
                (case Gui_getattr g a of
                   Inl e \<Rightarrow> (Inl e, g, [])
                 | Inr f \<Rightarrow>
                     (case Gui_call_function_with_args env g f ident VNone payload of
                        (True, g', evs) \<Rightarrow> (Inr (), g', evs)
                      | (False, g', evs) \<Rightarrow>
                          (case global_action env g' ident payload action of
                             (r, g'', evs') \<Rightarrow> (r, g'', evs @ evs'))))
              else global_action env g ident payload action)
         | _ \<Rightarrow> (Inl not_a_string, g, []))
      else global_action env g ident payload action)"
    unfolding Gui_on_action_def action_def Let_def by (rule refl)
  show ?thesis
  proof (cases "truthy action")
    case False
    then show ?thesis by (simp add: unf global_action_ok)
  next
    case True
    with shape obtain a where a: "action = VStr a" by blast
    show ?thesis
    proof (cases "Gui_hasattr g a")
      case False
      with True a show ?thesis by (simp add: unf global_action_ok)
    next
      case h: True
      then obtain f where f: "Gui_getattr g a = Inr f"
        by (auto simp: Gui_hasattr_def split: sum.splits)
      obtain b g' evs where c: "Gui_call_function_with_args env g f ident VNone payload = (b, g', evs)"
        by (cases "Gui_call_function_with_args env g f ident VNone payload")
      obtain r g'' evs' where ga: "global_action env g' ident payload (VStr a) = (r, g'', evs')"
        by (cases "global_action env g' ident payload (VStr a)")
      from global_action_ok [of env g' ident payload "VStr a"] ga have "r = Inr ()" by simp
      with True a h f c ga show ?thesis by (cases b) (simp_all add: unf)
    qed
  qed
qed

lemma on_action_engine_raise:
  assumes ne: "a \<noteq> []"
    and f: "Gui_getattr g a = Inr (VFunction f k)"
    and args: "action_args k ident VNone (VStr a) = Some args"
    and c: "call_function env (VFunction f k) args g = (Inl e, g')"
  shows "Gui_on_action env g ident (VStr a) =
     (case global_action env g' ident (VStr a) (VStr a) of
        (r, g'', evs') \<Rightarrow> (r, g'', [Call (VFunction f k) args, Warn (ActionException f e)] @ evs'))"
proof -
  have h: "Gui_hasattr g a" using f by (simp add: Gui_hasattr_def)
  show ?thesis
    using ne h f args c
    by (simp add: Gui_on_action_def Let_def str_py_def Gui_call_function_with_args_def)
qed

lemma on_action_no_function:
  assumes act: "(case payload of VDict d \<Rightarrow> get_dict_value d ''action'' | _ \<Rightarrow> VStr (str_py env payload)) = VStr a"
    and ne: "a \<noteq> []"
    and nf: "\<And>fn n. Gui_getattr g a \<noteq> Inr (VFunction fn n)"
  shows "Gui_on_action env g ident payload = global_action env g ident payload (VStr a)"
proof (cases "Gui_hasattr g a")
  case False
  with act ne show ?thesis by (simp add: Gui_on_action_def Let_def)
next
  case True
  then obtain v where v: "Gui_getattr g a = Inr v"
    by (auto simp: Gui_hasattr_def split: sum.splits)
  with nf have "\<And>fn n. v \<noteq> VFunction fn n" by auto
  then have c: "Gui_call_function_with_args env g v ident VNone payload = (False, g, [])"
    by (cases v) (auto simp: Gui_call_function_with_args_def)
  obtain r g'' evs' where ga: "global_action env g ident payload (VStr a) = (r, g'', evs')"
    by (cases "global_action env g ident payload (VStr a)")
  show ?thesis
    using act ne True v c ga by (simp add: Gui_on_action_def Let_def)
qed

text \<open>
  C6, as the code has it. Whatever the user functions do when they are called, raising
  included, \<^verbatim>\<open>_on_action\<close> returns normally for every payload that is not a dict and
  for every dict whose action is a string or falsy (the one raise of \<^verbatim>\<open>_on_action\<close>
  itself is the \<^verbatim>\<open>TypeError\<close> of \<^verbatim>\<open>hasattr\<close> on an action that is no string). When
  the function called raises, \<^verbatim>\<open>__call_function_with_args\<close> logs the warning "on action
  ... exception" and returns \<^verbatim>\<open>False\<close>. After a raise of the global action callback
  the dispatcher does nothing more. After a raise of a plain function attached to the
  engine under the action's name it goes on to the global action callback, when one is
  registered, and calls it.
\<close>

theorem action_exceptions_caught:
  "((\<forall>d. payload = VDict d \<longrightarrow>
        (\<exists>a. get_dict_value d ''action'' = VStr a) \<or> \<not> truthy (get_dict_value d ''action'')) \<longrightarrow>
      fst (Gui_on_action env g ident payload) = Inr ())
   \<and> (call_function env (VFunction f k) args g = (Inl e, g')
        \<and> action_args k ident action payload = Some args \<longrightarrow>
      Gui_call_function_with_args env g (VFunction f k) ident action payload
        = (False, g', [Call (VFunction f k) args, Warn (ActionException f e)]))
   \<and> (a \<noteq> [] \<and> (\<forall>fn n. Gui_getattr g a \<noteq> Inr (VFunction fn n))
        \<and> action_function g = VFunction f k
        \<and> action_args k ident (VStr a) (VStr a) = Some args
        \<and> call_function env (VFunction f k) args g = (Inl e, g') \<longrightarrow>
      Gui_on_action env g ident (VStr a)
        = (Inr (), g', [Call (VFunction f k) args, Warn (ActionException f e)]))
   \<and> (a \<noteq> [] \<and> Gui_getattr g a = Inr (VFunction f k)
        \<and> action_args k ident VNone (VStr a) = Some args
        \<and> call_function env (VFunction f k) args g = (Inl e, g')
        \<and> action_function g' = VFunction f2 k2
        \<and> action_args k2 ident (VStr a) (VStr a) = Some args2
        \<and> call_function env (VFunction f2 k2) args2 g' = (Inr (), g2) \<longrightarrow>
      Gui_on_action env g ident (VStr a)
        = (Inr (), g2,
           [Call (VFunction f k) args, Warn (ActionException f e), Call (VFunction f2 k2) args2]))"
proof (intro conjI impI)
  assume "\<forall>d. payload = VDict d \<longrightarrow>
        (\<exists>a. get_dict_value d ''action'' = VStr a) \<or> \<not> truthy (get_dict_value d ''action'')"
  then show "fst (Gui_on_action env g ident payload) = Inr ()"
    using on_action_str_ok [of payload env g ident] by blast
next
  assume "call_function env (VFunction f k) args g = (Inl e, g')
        \<and> action_args k ident action payload = Some args"
  then show "Gui_call_function_with_args env g (VFunction f k) ident action payload
        = (False, g', [Call (VFunction f k) args, Warn (ActionException f e)])"
    by (simp add: Gui_call_function_with_args_def)
next
  assume h: "a \<noteq> [] \<and> (\<forall>fn n. Gui_getattr g a \<noteq> Inr (VFunction fn n))
        \<and> action_function g = VFunction f k
        \<and> action_args k ident (VStr a) (VStr a) = Some args
        \<and> call_function env (VFunction f k) args g = (Inl e, g')"
  then have "Gui_on_action env g ident (VStr a) = global_action env g ident (VStr a) (VStr a)"
    by (intro on_action_no_function) (simp_all add: str_py_def)
  with h show "Gui_on_action env g ident (VStr a)
        = (Inr (), g', [Call (VFunction f k) args, Warn (ActionException f e)])"
    by (simp add: global_action_def Gui_call_function_with_args_def)
next
  assume h: "a \<noteq> [] \<and> Gui_getattr g a = Inr (VFunction f k)
        \<and> action_args k ident VNone (VStr a) = Some args
        \<and> call_function env (VFunction f k) args g = (Inl e, g')
        \<and> action_function g' = VFunction f2 k2
        \<and> action_args k2 ident (VStr a) (VStr a) = Some args2
        \<and> call_function env (VFunction f2 k2) args2 g' = (Inr (), g2)"
  then have "Gui_on_action env g ident (VStr a) =
     (case global_action env g' ident (VStr a) (VStr a) of
        (r, g'', evs') \<Rightarrow> (r, g'', [Call (VFunction f k) args, Warn (ActionException f e)] @ evs'))"
    by (intro on_action_engine_raise) simp_all
  with h show "Gui_on_action env g ident (VStr a)
        = (Inr (), g2,
           [Call (VFunction f k) args, Warn (ActionException f e), Call (VFunction f2 k2) args2])"
    by (simp add: global_action_def Gui_call_function_with_args_def)
qed

theorem action_exceptions_caught_witness:
  "fst (Gui_on_action raising_env acting_gui (VStr ''client'') (VStr ''go'')) = Inr ()
   \<and> Gui_call_function_with_args raising_env acting_gui (VFunction ''on_action'' 3) (VStr ''client'') (VStr ''go'') (VStr ''go'')
     = (False, acting_gui, [Call (VFunction ''on_action'' 3) [VSelf, VStr ''client'', VStr ''go''],
          Warn (ActionException ''on_action'' (Exc RuntimeError ''boom''))])
   \<and> Gui_on_action raising_env acting_gui (VStr ''client'') (VStr ''go'')
     = (Inr (), acting_gui, [Call (VFunction ''on_action'' 3) [VSelf, VStr ''client'', VStr ''go''],
          Warn (ActionException ''on_action'' (Exc RuntimeError ''boom''))])
   \<and> Gui_on_action go_env go_gui (VStr ''client'') (VStr ''go'')
     = (Inr (), go_gui, [Call (VFunction ''go'' 2) [VSelf, VStr ''client''],
          Warn (ActionException ''go'' (Exc RuntimeError ''boom'')),
          Call (VFunction ''on_action'' 3) [VSelf, VStr ''client'', VStr ''go'']])"
proof -
  let ?boom = "Exc RuntimeError ''boom''"
  have c: "call_function raising_env (VFunction ''on_action'' 3) [VSelf, VStr ''client'', VStr ''go''] acting_gui
     = (Inl ?boom, acting_gui)"
    by (simp add: raising_env_def)
  have a3: "action_args 3 (VStr ''client'') (VStr ''go'') (VStr ''go'') = Some [VSelf, VStr ''client'', VStr ''go'']"
    by (simp add: action_args_def)
  have a2: "action_args 2 (VStr ''client'') VNone (VStr ''go'') = Some [VSelf, VStr ''client'']"
    by (simp add: action_args_def)
  have nd: "\<forall>d. VStr ''go'' = VDict d \<longrightarrow>
        (\<exists>a. get_dict_value d ''action'' = VStr a) \<or> \<not> truthy (get_dict_value d ''action'')"
    by simp
  have nf: "\<forall>fn n. Gui_getattr acting_gui ''go'' \<noteq> Inr (VFunction fn n)"
    by (simp add: acting_gui_eval)
  have cg: "call_function go_env (VFunction ''go'' 2) [VSelf, VStr ''client''] go_gui = (Inl ?boom, go_gui)"
    by (simp add: go_env_def)
  have cg2: "call_function go_env (VFunction ''on_action'' 3) [VSelf, VStr ''client'', VStr ''go''] go_gui = (Inr (), go_gui)"
    by (simp add: go_env_def)
  have ne: "''go'' \<noteq> []" by simp
  note th = action_exceptions_caught [of "VStr ''go''" raising_env acting_gui "VStr ''client''"
      "''on_action''" 3 "[VSelf, VStr ''client'', VStr ''go'']" ?boom acting_gui "VStr ''go''" "''go''"]
  note th2 = action_exceptions_caught [of "VStr ''go''" go_env go_gui "VStr ''client''"
      "''go''" 2 "[VSelf, VStr ''client'']" ?boom go_gui VNone "''go''"
      "''on_action''" 3 "[VSelf, VStr ''client'', VStr ''go'']" go_gui]
  from th nd have r1: "fst (Gui_on_action raising_env acting_gui (VStr ''client'') (VStr ''go'')) = Inr ()"
    by blast
  from th c a3 have r2: "Gui_call_function_with_args raising_env acting_gui (VFunction ''on_action'' 3) (VStr ''client'') (VStr ''go'') (VStr ''go'')
     = (False, acting_gui, [Call (VFunction ''on_action'' 3) [VSelf, VStr ''client'', VStr ''go''],
          Warn (ActionException ''on_action'' ?boom)])"
    by blast
  from th ne nf acting_gui_eval(2) a3 c
  have r3: "Gui_on_action raising_env acting_gui (VStr ''client'') (VStr ''go'')
     = (Inr (), acting_gui, [Call (VFunction ''on_action'' 3) [VSelf, VStr ''client'', VStr ''go''],
          Warn (ActionException ''on_action'' ?boom)])"
    by blast
  from th2 ne go_gui_eval a2 a3 cg cg2
  have r4: "Gui_on_action go_env go_gui (VStr ''client'') (VStr ''go'')
     = (Inr (), go_gui, [Call (VFunction ''go'' 2) [VSelf, VStr ''client''],
          Warn (ActionException ''go'' ?boom),
          Call (VFunction ''on_action'' 3) [VSelf, VStr ''client'', VStr ''go'']])"
    by blast
  show ?thesis using r1 r2 r3 r4 by blast
qed

text \<open>
  The function \<open>go\<close> attached to the engine raises; the action is not dropped there:
  the global action callback is called after it.
\<close>

theorem action_not_noop_counterexample:
  "Gui_getattr go_gui ''go'' = Inr (VFunction ''go'' 2)
   \<and> call_function go_env (VFunction ''go'' 2) [VSelf, VStr ''client''] go_gui
       = (Inl (Exc RuntimeError ''boom''), go_gui)
   \<and> calls (snd (snd (Gui_on_action go_env go_gui (VStr ''client'') (VStr ''go''))))
       = [Call (VFunction ''go'' 2) [VSelf, VStr ''client''],
          Call (VFunction ''on_action'' 3) [VSelf, VStr ''client'', VStr ''go'']]"
  by (simp add: go_gui_eval go_env_def Gui_on_action_def Let_def str_py_def Gui_hasattr_def
      Gui_call_function_with_args_def action_args_def global_action_def calls_def is_call_def plain_env_def)

text \<open>
  C7, as the code has it. The payload names the action \<open>a\<close>, the engine exposes no
  plain function under the name \<open>a\<close> (it has no attribute \<open>a\<close>, or the attribute is
  something else, a bound method or a bound variable), and the global action callback is
  a plain function that declares \<open>k\<close> parameters, \<open>k\<close> at most four. Then the
  dispatcher returns normally and calls the callback exactly once, with the first \<open>k\<close>
  of: the engine, the client id, the action name, the payload as received.
\<close>

theorem action_falls_back:
  assumes act: "(case payload of VDict d \<Rightarrow> get_dict_value d ''action'' | _ \<Rightarrow> VStr (str_py env payload)) = VStr a"
    and ne: "a \<noteq> []"
    and nf: "\<And>fn n. Gui_getattr g a \<noteq> Inr (VFunction fn n)"
    and reg: "action_function g = VFunction f k"
    and k4: "k \<le> 4"
  shows "fst (Gui_on_action env g ident payload) = Inr ()
       \<and> calls (snd (snd (Gui_on_action env g ident payload)))
          = [Call (VFunction f k) (take k [VSelf, ident, VStr a, payload])]"
proof -
  have on: "Gui_on_action env g ident payload = global_action env g ident payload (VStr a)"
    using act ne nf by (rule on_action_no_function)
  from k4 have "k = 0 \<or> k = 1 \<or> k = 2 \<or> k = 3 \<or> k = 4" by arith
  then have args: "action_args k ident (VStr a) payload = Some (take k [VSelf, ident, VStr a, payload])"
    by (auto simp: action_args_def)
  obtain r g' where c: "call_function env (VFunction f k) (take k [VSelf, ident, VStr a, payload]) g = (r, g')"
    by (cases "call_function env (VFunction f k) (take k [VSelf, ident, VStr a, payload]) g")
  show ?thesis
    using c by (cases r)
      (simp_all add: on global_action_def reg Gui_call_function_with_args_def args calls_def is_call_def)
qed

theorem action_falls_back_witness:
  "Gui_getattr acting_gui ''go'' = Inl (Exc AttributeError ''go'')
   \<and> calls (snd (snd (Gui_on_action plain_env acting_gui (VStr ''client'') (VDict [(''action'', VStr ''go''), (''args'', VInt 1)]))))
      = [Call (VFunction ''on_action'' 3) [VSelf, VStr ''client'', VStr ''go'']]
   \<and> calls (snd (snd (Gui_on_action plain_env (acting_gui\<lparr>action_function := VFunction ''on_action'' 4\<rparr>)
         (VStr ''client'') (VDict [(''action'', VStr ''go''), (''args'', VInt 1)]))))
      = [Call (VFunction ''on_action'' 4) [VSelf, VStr ''client'', VStr ''go'', VDict [(''action'', VStr ''go''), (''args'', VInt 1)]]]
   \<and> Gui_getattr acting_gui ''run'' = Inr (VObject ''run'')
   \<and> calls (snd (snd (Gui_on_action plain_env acting_gui (VStr ''client'') (VStr ''run''))))
      = [Call (VFunction ''on_action'' 3) [VSelf, VStr ''client'', VStr ''run'']]
   \<and> Gui_getattr counting_gui ''count'' = Inr (VInt 0)
   \<and> fst (Gui_on_action plain_env counting_gui (VStr ''client'') (VStr ''count'')) = Inr ()
   \<and> calls (snd (snd (Gui_on_action plain_env counting_gui (VStr ''client'') (VStr ''count''))))
      = [Call (VFunction ''on_action'' 3) [VSelf, VStr ''client'', VStr ''count'']]"
proof -
  let ?p = "VDict [(''action'', VStr ''go''), (''args'', VInt 1)]"
  let ?g4 = "acting_gui\<lparr>action_function := VFunction ''on_action'' 4\<rparr>"
  have act: "(case ?p of VDict d \<Rightarrow> get_dict_value d ''action'' | _ \<Rightarrow> VStr (str_py plain_env ?p)) = VStr ''go''"
    by (simp add: get_dict_value_def)
  have actr: "(case VStr ''run'' of VDict d \<Rightarrow> get_dict_value d ''action'' | _ \<Rightarrow> VStr (str_py plain_env (VStr ''run''))) = VStr ''run''"
    by (simp add: str_py_def)
  have actc: "(case VStr ''count'' of VDict d \<Rightarrow> get_dict_value d ''action'' | _ \<Rightarrow> VStr (str_py plain_env (VStr ''count''))) = VStr ''count''"
    by (simp add: str_py_def)
  have ne: "''go'' \<noteq> []" "''run'' \<noteq> []" "''count'' \<noteq> []" by simp_all
  have nf: "\<And>fn n. Gui_getattr acting_gui ''go'' \<noteq> Inr (VFunction fn n)"
    by (simp add: acting_gui_eval)
  have g4: "Gui_getattr ?g4 ''go'' = Gui_getattr acting_gui ''go''"
    by (simp add: Gui_getattr_def Gui_get_data_scope_def get_scope_def)
  have nf4: "\<And>fn n. Gui_getattr ?g4 ''go'' \<noteq> Inr (VFunction fn n)"
    by (simp add: g4 acting_gui_eval)
  have nfr: "\<And>fn n. Gui_getattr acting_gui ''run'' \<noteq> Inr (VFunction fn n)"
    by (simp add: acting_gui_run)
  have nfc: "\<And>fn n. Gui_getattr counting_gui ''count'' \<noteq> Inr (VFunction fn n)"
    by (simp add: counting_gui_eval)
  have reg4: "action_function ?g4 = VFunction ''on_action'' 4" by simp
  have k: "(3::nat) \<le> 4" "(4::nat) \<le> 4" by simp_all
  from action_falls_back [OF act ne(1) nf acting_gui_eval(2) k(1), of "VStr ''client''"]
    action_falls_back [OF act ne(1) nf4 reg4 k(2), of "VStr ''client''"]
    action_falls_back [OF actr ne(2) nfr acting_gui_eval(2) k(1), of "VStr ''client''"]
    action_falls_back [OF actc ne(3) nfc counting_gui_eval(2) k(1), of "VStr ''client''"]
    acting_gui_eval(1) acting_gui_run counting_gui_eval(1)
  show ?thesis by simp
qed

text \<open>
  A registered callback of five parameters is not called (a warning is logged), and a
  registered callback that is a bound method is not called either.
\<close>

theorem action_dropped_counterexample:
  "Gui_on_action plain_env (Gui_init\<lparr>action_function := VFunction ''on_action'' 5\<rparr>) (VStr ''client'') (VStr ''go'')
     = (Inr (), Gui_init\<lparr>action_function := VFunction ''on_action'' 5\<rparr>, [Warn (WrongSignature ''on_action'')])
   \<and> Gui_on_action plain_env (Gui_init\<lparr>action_function := VObject ''handler.on_action''\<rparr>) (VStr ''client'') (VStr ''go'')
     = (Inr (), Gui_init\<lparr>action_function := VObject ''handler.on_action''\<rparr>, [])"
  by (simp add: act_eval)

end
